theory Spec2Isabelle
  imports Main
begin

section \<open>Data model\<close>

text \<open>
  The entities of \<^verbatim>\<open>services/api.ts\<close>. The declarations of \<^verbatim>\<open>../types\<close> are not
  among the sources; the fields below are the ones the service, its seed data and the
  server handlers read and write. JavaScript strings are modelled as \<open>string\<close>, the
  integral numbers the code handles (counters, timestamps) as \<open>int\<close>. A JavaScript
  number is a double: the download counter, the one number the service adds to, is added
  to with \<open>plusNumber\<close> below. Fractional, infinite and not-a-number values are not
  modelled.
\<close>

record Card =
  card_id :: string
  card_front :: string
  card_back :: string
  card_color :: string

record Deck =
  deck_id :: string
  deck_title :: string
  deck_description :: string
  deck_cards :: "Card list"
  deck_createdAt :: int

record Note =
  note_id :: string
  note_title :: string
  note_subject :: string
  note_content :: string
  note_background :: string
  note_createdAt :: int
  note_lastModified :: int

record Test =
  test_id :: string
  test_title :: string
  test_date :: int
  test_topics :: "string list"

record ChatSession =
  chat_id :: string
  chat_title :: string
  chat_messages :: "string list"
  chat_lastActive :: int

record UserStats =
  stats_xp :: int
  stats_goals :: "string list"

text \<open>The discriminator \<^verbatim>\<open>'deck' | 'note'\<close> of a community item.\<close>

datatype item_type = DeckT | NoteT

record CommunityItem =
  ci_id :: string
  ci_type :: item_type
  ci_title :: string
  ci_description :: string
  ci_author :: string
  ci_data :: "Deck + Note"
  ci_downloads :: int
  ci_timestamp :: int

text \<open>
  The user object is an untyped JavaScript object: the service only spreads it
  (\<^verbatim>\<open>{ ...current, ...profile }\<close>), so it is a finite map from property names to values.
\<close>

datatype jsval = JStr string | JBool bool | JNum int

type_synonym obj = "string \<Rightarrow> jsval option"

section \<open>Local storage\<close>

text \<open>
  One item of \<^verbatim>\<open>localStorage\<close> that holds JSON: \<open>Absent\<close> when \<^verbatim>\<open>getItem\<close> gives
  \<^verbatim>\<open>null\<close>, \<open>Stored v\<close> when the item is the text \<^verbatim>\<open>JSON.stringify(v)\<close>, \<open>Corrupt\<close> for
  any other text (the empty string, which is falsy, or a text \<^verbatim>\<open>JSON.parse\<close> rejects).
  The value of an item has the type the service declares for it (\<^verbatim>\<open>getLocal<Deck[]>\<close>);
  a text that parses to a value of another shape is not modelled.
\<close>

datatype 'a slot = Absent | Corrupt | Stored 'a

text \<open>
  The storage has one item per key of \<^verbatim>\<open>KEYS\<close>; the eight keys are pairwise different
  strings, so each is a field of its own. The token is stored as raw text. The items of
  the user and of the stats may hold the JSON text \<^verbatim>\<open>null\<close> (\<open>Stored None\<close>): the
  service reads both with the default \<^verbatim>\<open>null\<close>.
\<close>

record local_storage =
  ls_user :: "obj option slot"
  ls_token :: "string option"
  ls_decks :: "Deck list slot"
  ls_notes :: "Note list slot"
  ls_tests :: "Test list slot"
  ls_stats :: "UserStats option slot"
  ls_chats :: "ChatSession list slot"
  ls_community :: "CommunityItem list slot"

text \<open>A key of \<^verbatim>\<open>KEYS\<close> whose item holds JSON: how to read and how to replace its item.\<close>

record 'a key =
  item_of :: "local_storage \<Rightarrow> 'a slot"
  put_item :: "'a slot \<Rightarrow> local_storage \<Rightarrow> local_storage"

definition KEYS_USER :: "obj option key" where
  "KEYS_USER = \<lparr>item_of = ls_user, put_item = (\<lambda>s ls. ls\<lparr>ls_user := s\<rparr>)\<rparr>"

definition KEYS_DECKS :: "Deck list key" where
  "KEYS_DECKS = \<lparr>item_of = ls_decks, put_item = (\<lambda>s ls. ls\<lparr>ls_decks := s\<rparr>)\<rparr>"

definition KEYS_NOTES :: "Note list key" where
  "KEYS_NOTES = \<lparr>item_of = ls_notes, put_item = (\<lambda>s ls. ls\<lparr>ls_notes := s\<rparr>)\<rparr>"

definition KEYS_TESTS :: "Test list key" where
  "KEYS_TESTS = \<lparr>item_of = ls_tests, put_item = (\<lambda>s ls. ls\<lparr>ls_tests := s\<rparr>)\<rparr>"

definition KEYS_STATS :: "UserStats option key" where
  "KEYS_STATS = \<lparr>item_of = ls_stats, put_item = (\<lambda>s ls. ls\<lparr>ls_stats := s\<rparr>)\<rparr>"

definition KEYS_CHATS :: "ChatSession list key" where
  "KEYS_CHATS = \<lparr>item_of = ls_chats, put_item = (\<lambda>s ls. ls\<lparr>ls_chats := s\<rparr>)\<rparr>"

definition KEYS_COMMUNITY :: "CommunityItem list key" where
  "KEYS_COMMUNITY = \<lparr>item_of = ls_community, put_item = (\<lambda>s ls. ls\<lparr>ls_community := s\<rparr>)\<rparr>"

section \<open>Requests and the state of the service\<close>

text \<open>The body of a request, before \<^verbatim>\<open>JSON.stringify\<close>.\<close>

datatype payload =
    NoBody
  | Credentials string string
  | Registration string string string
  | Preferences string string bool
  | DeckBody Deck
  | NoteBody Note
  | TestBody Test
  | StatsBody UserStats
  | ChatBody ChatSession
  | CommunityBody CommunityItem

text \<open>
  A call of \<^verbatim>\<open>fetch\<close>: the method (\<^verbatim>\<open>GET\<close> when none is given), the URL, the headers,
  the body and the timeout of the abort signal, if any.
\<close>

record request =
  req_method :: string
  req_url :: string
  req_headers :: "(string \<times> string) list"
  req_body :: payload
  req_timeout :: "nat option"

text \<open>
  The state an operation runs in: the field \<^verbatim>\<open>token\<close> of the service, the browser's
  \<^verbatim>\<open>localStorage\<close>, \<^verbatim>\<open>navigator.onLine\<close> (\<open>None\<close> when \<^verbatim>\<open>navigator\<close> is undefined),
  \<^verbatim>\<open>window.location.hostname\<close>, and the requests issued so far, oldest first.
\<close>

record world =
  token :: "string option"
  localStorage :: local_storage
  navigator_onLine :: "bool option"
  hostname :: string
  requests :: "request list"

text \<open>A thrown JavaScript \<^verbatim>\<open>Error\<close>, with its message.\<close>

datatype error = Error string

text \<open>
  What the network does with one request. \<open>Rejects e\<close>: the promise of \<^verbatim>\<open>fetch\<close> rejects
  (network error, or the abort signal's timeout). \<open>Resolves r\<close>: a response arrived, with
  its \<^verbatim>\<open>ok\<close> flag and what \<^verbatim>\<open>res.json()\<close> gives (\<open>Inl\<close> when the body does not parse).
\<close>

datatype 'a response = Response (ok: bool) (json_body: "error + 'a")

datatype 'a fetch_outcome = Rejects error | Resolves "'a response"

text \<open>
  An asynchronous computation: it runs in a state and either throws (\<open>Inl\<close>, a rejected
  promise) or returns (\<open>Inr\<close>), leaving a new state.
\<close>

type_synonym 'a promise = "world \<Rightarrow> (error + 'a) \<times> world"

definition resolve :: "'a \<Rightarrow> 'a promise" where
  "resolve x = (\<lambda>w. (Inr x, w))"

definition reject :: "error \<Rightarrow> 'a promise" where
  "reject e = (\<lambda>w. (Inl e, w))"

definition andThen :: "'a promise \<Rightarrow> ('a \<Rightarrow> 'b promise) \<Rightarrow> 'b promise" where
  "andThen m f = (\<lambda>w. case m w of (Inl e, w') \<Rightarrow> (Inl e, w') | (Inr x, w') \<Rightarrow> f x w')"

text \<open>\<^verbatim>\<open>try { m } catch (e) { h }\<close>\<close>

definition tryCatch :: "'a promise \<Rightarrow> (error \<Rightarrow> 'a promise) \<Rightarrow> 'a promise" where
  "tryCatch m h = (\<lambda>w. case m w of (Inl e, w') \<Rightarrow> h e w' | (Inr x, w') \<Rightarrow> (Inr x, w'))"

definition reads :: "(world \<Rightarrow> 'a) \<Rightarrow> 'a promise" where
  "reads f = (\<lambda>w. (Inr (f w), w))"

definition writes :: "(world \<Rightarrow> world) \<Rightarrow> unit promise" where
  "writes f = (\<lambda>w. (Inr (), f w))"

text \<open>\<^verbatim>\<open>fetch\<close> issues the request, whatever the network then does with it.\<close>

definition fetch :: "request \<Rightarrow> 'a fetch_outcome \<Rightarrow> 'a response promise" where
  "fetch req outcome =
     (\<lambda>w. (case outcome of Rejects e \<Rightarrow> Inl e | Resolves r \<Rightarrow> Inr r,
           w\<lparr>requests := requests w @ [req]\<rparr>))"

definition res_json :: "'a response \<Rightarrow> 'a promise" where
  "res_json r = (\<lambda>w. (json_body r, w))"

subsection \<open>Module constants and private helpers\<close>

definition isLocal :: "world \<Rightarrow> bool" where
  "isLocal w = (hostname w = ''localhost'' \<or> hostname w = ''127.0.0.1'')"

definition API_URL :: "world \<Rightarrow> string" where
  "API_URL w = (if isLocal w then ''http://localhost:3001/api'' else ''/api'')"

text \<open>\<^verbatim>\<open>this.token\<close> as a condition: \<^verbatim>\<open>null\<close> and the empty string are falsy.\<close>

definition truthy :: "string option \<Rightarrow> bool" where
  "truthy t = (case t of None \<Rightarrow> False | Some s \<Rightarrow> s \<noteq> [])"

definition getHeaders :: "world \<Rightarrow> (string \<times> string) list" where
  "getHeaders w =
     [(''Content-Type'', ''application/json''),
      (''Authorization'', ''Bearer '' @ (case token w of None \<Rightarrow> ''null'' | Some t \<Rightarrow> t))]"

definition isOnline :: "world \<Rightarrow> bool" where
  "isOnline w = (case navigator_onLine w of None \<Rightarrow> False | Some b \<Rightarrow> b)"

definition getLocal :: "'a key \<Rightarrow> 'a \<Rightarrow> world \<Rightarrow> 'a" where
  "getLocal k defaultVal w =
     (case item_of k (localStorage w) of
        Absent \<Rightarrow> defaultVal
      | Corrupt \<Rightarrow> defaultVal
      | Stored v \<Rightarrow> v)"

definition setLocal :: "'a key \<Rightarrow> 'a \<Rightarrow> world \<Rightarrow> world" where
  "setLocal k v w = w\<lparr>localStorage := put_item k (Stored v) (localStorage w)\<rparr>"

definition removeItem :: "'a key \<Rightarrow> world \<Rightarrow> world" where
  "removeItem k w = w\<lparr>localStorage := put_item k Absent (localStorage w)\<rparr>"

definition isAuthenticated :: "world \<Rightarrow> bool" where
  "isAuthenticated w = truthy (token w)"

text \<open>
  The best-effort remote write shared by the mutating operations:
  \<^verbatim>\<open>if (this.token && this.isOnline()) { try { await fetch(...) } catch (e) {} }\<close>.
\<close>

definition bestEffort :: "bool \<Rightarrow> request \<Rightarrow> 'a fetch_outcome \<Rightarrow> unit promise" where
  "bestEffort cond req net =
     (if cond then tryCatch (andThen (fetch req net) (\<lambda>_. resolve ())) (\<lambda>e. resolve ())
      else resolve ())"

text \<open>\<^verbatim>\<open>Array.prototype.findIndex\<close>: the first index whose element satisfies \<open>P\<close>, or \<open>-1\<close>.\<close>

fun findIndexFrom :: "('a \<Rightarrow> bool) \<Rightarrow> 'a list \<Rightarrow> int \<Rightarrow> int" where
  "findIndexFrom P [] k = -1"
| "findIndexFrom P (x # xs) k = (if P x then k else findIndexFrom P xs (k + 1))"

definition findIndex :: "('a \<Rightarrow> bool) \<Rightarrow> 'a list \<Rightarrow> int" where
  "findIndex P xs = findIndexFrom P xs 0"

section \<open>Decks\<close>

definition getDecks :: "Deck list fetch_outcome \<Rightarrow> Deck list promise" where
  "getDecks net w =
     andThen
       (if truthy (token w) \<and> isOnline w then
          tryCatch
            (andThen
               (fetch \<lparr>req_method = ''GET'', req_url = API_URL w @ ''/decks'',
                       req_headers = getHeaders w, req_body = NoBody, req_timeout = None\<rparr> net)
               (\<lambda>res.
                  if ok res then
                    andThen (res_json res) (\<lambda>decks.
                    andThen (writes (setLocal KEYS_DECKS decks)) (\<lambda>_.
                    resolve (Some decks)))
                  else resolve None))
            (\<lambda>e. resolve None)
        else resolve None)
       (\<lambda>returned. case returned of
            Some decks \<Rightarrow> resolve decks
          | None \<Rightarrow> reads (getLocal KEYS_DECKS []))
       w"

definition createDeck :: "Deck \<Rightarrow> 'r fetch_outcome \<Rightarrow> Deck promise" where
  "createDeck deck net w =
     andThen
       (bestEffort (truthy (token w) \<and> isOnline w)
          \<lparr>req_method = ''POST'', req_url = API_URL w @ ''/decks'',
           req_headers = getHeaders w, req_body = DeckBody deck, req_timeout = None\<rparr> net)
       (\<lambda>_. andThen (reads (getLocal KEYS_DECKS [])) (\<lambda>decks.
             andThen (writes (setLocal KEYS_DECKS (deck # decks))) (\<lambda>_.
             resolve deck)))
       w"

definition updateDeck :: "Deck \<Rightarrow> 'r fetch_outcome \<Rightarrow> unit promise" where
  "updateDeck deck net w =
     andThen
       (bestEffort (truthy (token w) \<and> isOnline w)
          \<lparr>req_method = ''PUT'', req_url = API_URL w @ ''/decks/'' @ deck_id deck,
           req_headers = getHeaders w, req_body = DeckBody deck, req_timeout = None\<rparr> net)
       (\<lambda>_. andThen (reads (getLocal KEYS_DECKS [])) (\<lambda>decks.
             let index = findIndex (\<lambda>d. deck_id d = deck_id deck) decks in
             if index \<noteq> -1 then writes (setLocal KEYS_DECKS (decks[nat index := deck]))
             else resolve ()))
       w"

definition deleteDeck :: "string \<Rightarrow> 'r fetch_outcome \<Rightarrow> unit promise" where
  "deleteDeck i net w =
     andThen
       (bestEffort (truthy (token w) \<and> isOnline w)
          \<lparr>req_method = ''DELETE'', req_url = API_URL w @ ''/decks/'' @ i,
           req_headers = getHeaders w, req_body = NoBody, req_timeout = None\<rparr> net)
       (\<lambda>_. andThen (reads (getLocal KEYS_DECKS [])) (\<lambda>decks.
             writes (setLocal KEYS_DECKS (filter (\<lambda>d. deck_id d \<noteq> i) decks))))
       w"

section \<open>Notes\<close>

definition getNotes :: "Note list fetch_outcome \<Rightarrow> Note list promise" where
  "getNotes net w =
     andThen
       (if truthy (token w) \<and> isOnline w then
          tryCatch
            (andThen
               (fetch \<lparr>req_method = ''GET'', req_url = API_URL w @ ''/notes'',
                       req_headers = getHeaders w, req_body = NoBody, req_timeout = None\<rparr> net)
               (\<lambda>res.
                  if ok res then
                    andThen (res_json res) (\<lambda>notes.
                    andThen (writes (setLocal KEYS_NOTES notes)) (\<lambda>_.
                    resolve (Some notes)))
                  else resolve None))
            (\<lambda>e. resolve None)
        else resolve None)
       (\<lambda>returned. case returned of
            Some notes \<Rightarrow> resolve notes
          | None \<Rightarrow> reads (getLocal KEYS_NOTES []))
       w"

definition saveNote :: "Note \<Rightarrow> 'r fetch_outcome \<Rightarrow> Note promise" where
  "saveNote note net w =
     andThen
       (bestEffort (truthy (token w) \<and> isOnline w)
          \<lparr>req_method = ''POST'', req_url = API_URL w @ ''/notes'',
           req_headers = getHeaders w, req_body = NoteBody note, req_timeout = None\<rparr> net)
       (\<lambda>_. andThen (reads (getLocal KEYS_NOTES [])) (\<lambda>notes.
             let index = findIndex (\<lambda>n. note_id n = note_id note) notes in
             andThen
               (writes (setLocal KEYS_NOTES
                  (if index \<noteq> -1 then notes[nat index := note] else note # notes)))
               (\<lambda>_. resolve note)))
       w"

definition deleteNote :: "string \<Rightarrow> 'r fetch_outcome \<Rightarrow> unit promise" where
  "deleteNote i net w =
     andThen
       (bestEffort (truthy (token w) \<and> isOnline w)
          \<lparr>req_method = ''DELETE'', req_url = API_URL w @ ''/notes/'' @ i,
           req_headers = getHeaders w, req_body = NoBody, req_timeout = None\<rparr> net)
       (\<lambda>_. andThen (reads (getLocal KEYS_NOTES [])) (\<lambda>notes.
             writes (setLocal KEYS_NOTES (filter (\<lambda>n. note_id n \<noteq> i) notes))))
       w"

section \<open>Tests\<close>

definition getTests :: "Test list fetch_outcome \<Rightarrow> Test list promise" where
  "getTests net w =
     andThen
       (if truthy (token w) \<and> isOnline w then
          tryCatch
            (andThen
               (fetch \<lparr>req_method = ''GET'', req_url = API_URL w @ ''/tests'',
                       req_headers = getHeaders w, req_body = NoBody, req_timeout = None\<rparr> net)
               (\<lambda>res.
                  if ok res then andThen (res_json res) (\<lambda>tests. resolve (Some tests))
                  else resolve None))
            (\<lambda>e. resolve None)
        else resolve None)
       (\<lambda>returned. case returned of
            Some tests \<Rightarrow> resolve tests
          | None \<Rightarrow> reads (getLocal KEYS_TESTS []))
       w"

definition addTest :: "Test \<Rightarrow> 'r fetch_outcome \<Rightarrow> Test promise" where
  "addTest test net w =
     andThen
       (bestEffort (truthy (token w) \<and> isOnline w)
          \<lparr>req_method = ''POST'', req_url = API_URL w @ ''/tests'',
           req_headers = getHeaders w, req_body = TestBody test, req_timeout = None\<rparr> net)
       (\<lambda>_. andThen (reads (getLocal KEYS_TESTS [])) (\<lambda>tests.
             andThen (writes (setLocal KEYS_TESTS (tests @ [test]))) (\<lambda>_.
             resolve test)))
       w"

definition deleteTest :: "string \<Rightarrow> 'r fetch_outcome \<Rightarrow> unit promise" where
  "deleteTest i net w =
     andThen
       (bestEffort (truthy (token w) \<and> isOnline w)
          \<lparr>req_method = ''DELETE'', req_url = API_URL w @ ''/tests/'' @ i,
           req_headers = getHeaders w, req_body = NoBody, req_timeout = None\<rparr> net)
       (\<lambda>_. andThen (reads (getLocal KEYS_TESTS [])) (\<lambda>tests.
             writes (setLocal KEYS_TESTS (filter (\<lambda>t. test_id t \<noteq> i) tests))))
       w"

section \<open>Stats\<close>

text \<open>
  The server answers \<^verbatim>\<open>null\<close> when the user has no stats: the response and the result
  are \<^verbatim>\<open>UserStats | null\<close>, and \<^verbatim>\<open>if (stats)\<close> guards the write of the mirror.
\<close>

definition getStats :: "UserStats option fetch_outcome \<Rightarrow> UserStats option promise" where
  "getStats net w =
     andThen
       (if truthy (token w) \<and> isOnline w then
          tryCatch
            (andThen
               (fetch \<lparr>req_method = ''GET'', req_url = API_URL w @ ''/stats'',
                       req_headers = getHeaders w, req_body = NoBody, req_timeout = None\<rparr> net)
               (\<lambda>res.
                  if ok res then
                    andThen (res_json res) (\<lambda>stats.
                    andThen
                      (case stats of
                         Some s \<Rightarrow> writes (setLocal KEYS_STATS (Some s))
                       | None \<Rightarrow> resolve ())
                      (\<lambda>_. resolve (Some stats)))
                  else resolve None))
            (\<lambda>e. resolve None)
        else resolve None)
       (\<lambda>returned. case returned of
            Some stats \<Rightarrow> resolve stats
          | None \<Rightarrow> reads (getLocal KEYS_STATS None))
       w"

definition syncStats :: "UserStats \<Rightarrow> 'r fetch_outcome \<Rightarrow> unit promise" where
  "syncStats stats net w =
     andThen
       (bestEffort (truthy (token w) \<and> isOnline w)
          \<lparr>req_method = ''POST'', req_url = API_URL w @ ''/stats'',
           req_headers = getHeaders w, req_body = StatsBody stats, req_timeout = None\<rparr> net)
       (\<lambda>_. writes (setLocal KEYS_STATS (Some stats)))
       w"

section \<open>Chat\<close>

definition getChatSessions :: "ChatSession list fetch_outcome \<Rightarrow> ChatSession list promise" where
  "getChatSessions net w =
     andThen
       (if truthy (token w) \<and> isOnline w then
          tryCatch
            (andThen
               (fetch \<lparr>req_method = ''GET'', req_url = API_URL w @ ''/chats'',
                       req_headers = getHeaders w, req_body = NoBody, req_timeout = None\<rparr> net)
               (\<lambda>res.
                  if ok res then andThen (res_json res) (\<lambda>chats. resolve (Some chats))
                  else resolve None))
            (\<lambda>e. resolve None)
        else resolve None)
       (\<lambda>returned. case returned of
            Some chats \<Rightarrow> resolve chats
          | None \<Rightarrow> reads (getLocal KEYS_CHATS []))
       w"

definition saveChatSession :: "ChatSession \<Rightarrow> 'r fetch_outcome \<Rightarrow> unit promise" where
  "saveChatSession session net w =
     andThen
       (bestEffort (truthy (token w) \<and> isOnline w)
          \<lparr>req_method = ''POST'', req_url = API_URL w @ ''/chats'',
           req_headers = getHeaders w, req_body = ChatBody session, req_timeout = None\<rparr> net)
       (\<lambda>_. andThen (reads (getLocal KEYS_CHATS [])) (\<lambda>sessions.
             let index = findIndex (\<lambda>s. chat_id s = chat_id session) sessions in
             writes (setLocal KEYS_CHATS
               (if index \<noteq> -1 then sessions[nat index := session] else session # sessions))))
       w"

section \<open>Community\<close>

text \<open>
  The seed items of \<^verbatim>\<open>_localGetCommunity\<close>. \<open>now k\<close> is what the \<open>k\<close>-th call of
  \<^verbatim>\<open>Date.now()\<close> returns while the array literal is evaluated (seven calls, in the order
  of the literal). The author of the second seed is written with the bytes the source
  file has between \<^verbatim>\<open>Se\<close> and \<^verbatim>\<open>orita\<close>.
\<close>

definition seeds :: "(nat \<Rightarrow> int) \<Rightarrow> CommunityItem list" where
  "seeds now =
     [\<lparr>ci_id = ''seed-1'', ci_type = DeckT, ci_title = ''Biology: Cell Structure'',
       ci_description = ''Deep dive into mitochondria and ribbons.'',
       ci_author = ''Dr. Science'',
       ci_data = Inl \<lparr>deck_id = ''s1'', deck_title = ''Biology: Cell Structure'',
                      deck_description = ''Deep dive into mitochondria.'',
                      deck_cards = [\<lparr>card_id = ''c1'', card_front = ''Powerhouse?'',
                                     card_back = ''Mitochondria'',
                                     card_color = ''bg-green-100''\<rparr>],
                      deck_createdAt = now 1\<rparr>,
       ci_downloads = 124, ci_timestamp = now 0\<rparr>,
      \<lparr>ci_id = ''seed-2'', ci_type = DeckT, ci_title = ''Spanish Verbs 101'',
       ci_description = ''Essential conjugation for beginners.'',
       ci_author = ''Se'' @ [CHR 0xE2, CHR 0x88, CHR 0x9A, CHR 0xC2, CHR 0xB1] @ ''orita A'',
       ci_data = Inl \<lparr>deck_id = ''s2'', deck_title = ''Spanish Verbs 101'',
                      deck_description = ''Conjugations.'',
                      deck_cards = [\<lparr>card_id = ''c2'', card_front = ''Ser'',
                                     card_back = ''To be'',
                                     card_color = ''bg-orange-100''\<rparr>],
                      deck_createdAt = now 3\<rparr>,
       ci_downloads = 45, ci_timestamp = now 2 - 100000\<rparr>,
      \<lparr>ci_id = ''seed-3'', ci_type = NoteT, ci_title = ''Calculus Cheat Sheet'',
       ci_description = ''Derivatives and Integrals quick ref.'',
       ci_author = ''MathWhiz'',
       ci_data = Inr \<lparr>note_id = ''s3'', note_title = ''Calculus Cheat Sheet'',
                      note_subject = ''Math'',
                      note_content = ''<b>Power Rule:</b> nx^(n-1)'',
                      note_background = ''grid'',
                      note_createdAt = now 5, note_lastModified = now 6\<rparr>,
       ci_downloads = 89, ci_timestamp = now 4 - 200000\<rparr>]"

definition localShare :: "CommunityItem \<Rightarrow> world \<Rightarrow> world" where
  "localShare item w =
     (let community = getLocal KEYS_COMMUNITY [] w in
      if find (\<lambda>c. ci_id c = ci_id item) community = None
      then setLocal KEYS_COMMUNITY (item # community) w
      else w)"

definition localGetCommunity :: "(nat \<Rightarrow> int) \<Rightarrow> CommunityItem list promise" where
  "localGetCommunity now w =
     (let community = getLocal KEYS_COMMUNITY [] w in
      if length community = 0
      then (Inr (seeds now), setLocal KEYS_COMMUNITY (seeds now) w)
      else (Inr community, w))"

text \<open>
  The addition of two integral numbers, as \<^verbatim>\<open>+\<close> computes it on doubles: the exact sum,
  rounded to the nearest number with a significand of 53 bits, a tie going to the even
  significand. \<open>ulp m\<close> is the distance between neighbouring doubles at the magnitude
  \<open>m\<close>: 1 below \<open>2 ^ 53\<close>, 2 from there to \<open>2 ^ 54\<close>, and so on. (A sum beyond the largest
  double does not arise from adding 1 to a double.)
\<close>

fun ulp :: "nat \<Rightarrow> nat" where
  "ulp m = (if m < 2 ^ 53 then 1 else 2 * ulp (m div 2))"

definition roundToDouble :: "int \<Rightarrow> int" where
  "roundToDouble n =
     (let m = nat \<bar>n\<bar>; u = ulp m; q = m div u; r = m mod u;
          q' = (if u < 2 * r \<or> (u = 2 * r \<and> odd q) then q + 1 else q)
      in sgn n * int (q' * u))"

definition plusNumber :: "int \<Rightarrow> int \<Rightarrow> int" where
  "plusNumber a b = roundToDouble (a + b)"

text \<open>\<^verbatim>\<open>community[index].downloads += 1\<close> is the addition of numbers.\<close>

definition localIncrement :: "string \<Rightarrow> world \<Rightarrow> world" where
  "localIncrement i w =
     (let community = getLocal KEYS_COMMUNITY [] w;
          index = findIndex (\<lambda>c. ci_id c = i) community
      in if index \<noteq> -1
         then setLocal KEYS_COMMUNITY
                (community[nat index :=
                   (community ! nat index)
                     \<lparr>ci_downloads := plusNumber (ci_downloads (community ! nat index)) 1\<rparr>]) w
         else w)"

text \<open>
  \<^verbatim>\<open>shareToCommunity\<close>: \<open>uuid\<close> is what \<^verbatim>\<open>crypto.randomUUID()\<close> returns and \<open>now\<close> what
  \<^verbatim>\<open>Date.now()\<close> returns. An empty description or subject is falsy.
\<close>

definition shareToCommunity ::
  "Deck + Note \<Rightarrow> item_type \<Rightarrow> string \<Rightarrow> string \<Rightarrow> int \<Rightarrow> 'r fetch_outcome \<Rightarrow> unit promise" where
  "shareToCommunity item type authorName uuid now net w =
     (let sharedItem =
        \<lparr>ci_id = uuid, ci_type = type,
         ci_title = (case item of Inl d \<Rightarrow> deck_title d | Inr n \<Rightarrow> note_title n),
         ci_description =
           (case item of
              Inl d \<Rightarrow> if deck_description d \<noteq> [] then deck_description d
                       else ''No description''
            | Inr n \<Rightarrow> if note_subject n \<noteq> [] then note_subject n
                       else ''No description''),
         ci_author = authorName, ci_data = item, ci_downloads = 0, ci_timestamp = now\<rparr>
      in andThen
           (bestEffort (isOnline w)
              \<lparr>req_method = ''POST'', req_url = API_URL w @ ''/community'',
               req_headers = [(''Content-Type'', ''application/json'')],
               req_body = CommunityBody sharedItem, req_timeout = None\<rparr> net)
           (\<lambda>_. writes (localShare sharedItem))
           w)"

definition getCommunityItems ::
  "(nat \<Rightarrow> int) \<Rightarrow> CommunityItem list fetch_outcome \<Rightarrow> CommunityItem list promise" where
  "getCommunityItems now net w =
     andThen
       (if isOnline w then
          tryCatch
            (andThen
               (fetch \<lparr>req_method = ''GET'', req_url = API_URL w @ ''/community'',
                       req_headers = [], req_body = NoBody, req_timeout = Some 2500\<rparr> net)
               (\<lambda>response.
                  if ok response then
                    andThen (res_json response) (\<lambda>items.
                    andThen (writes (setLocal KEYS_COMMUNITY items)) (\<lambda>_.
                    resolve (Some items)))
                  else resolve None))
            (\<lambda>e. resolve None)
        else resolve None)
       (\<lambda>returned. case returned of
            Some items \<Rightarrow> resolve items
          | None \<Rightarrow> localGetCommunity now)
       w"

definition incrementDownload :: "string \<Rightarrow> 'r fetch_outcome \<Rightarrow> unit promise" where
  "incrementDownload communityId net w =
     andThen (writes (localIncrement communityId))
       (\<lambda>_. bestEffort (isOnline w)
          \<lparr>req_method = ''POST'',
           req_url = API_URL w @ ''/community/'' @ communityId @ ''/download'',
           req_headers = [], req_body = NoBody, req_timeout = None\<rparr> net)
       w"

section \<open>Authentication and profile\<close>

text \<open>The JSON the authentication endpoints answer with: \<^verbatim>\<open>{ token, user }\<close>.\<close>

record auth_data =
  auth_token :: string
  auth_user :: obj

text \<open>The service is constructed with the token found in the storage.\<close>

definition ApiService :: "local_storage \<Rightarrow> bool option \<Rightarrow> string \<Rightarrow> world" where
  "ApiService ls nav host =
     \<lparr>token = ls_token ls, localStorage = ls, navigator_onLine = nav, hostname = host,
      requests = []\<rparr>"

definition storeSession :: "auth_data \<Rightarrow> world \<Rightarrow> world" where
  "storeSession data w =
     setLocal KEYS_USER (Some (auth_user data))
       (w\<lparr>token := Some (auth_token data),
          localStorage := (localStorage w)\<lparr>ls_token := Some (auth_token data)\<rparr>\<rparr>)"

definition login :: "string \<Rightarrow> string \<Rightarrow> auth_data fetch_outcome \<Rightarrow> obj promise" where
  "login email password net w =
     (if \<not> isOnline w then reject (Error ''Offline. Cannot login.'')
      else
        andThen
          (fetch \<lparr>req_method = ''POST'', req_url = API_URL w @ ''/auth/login'',
                  req_headers = [(''Content-Type'', ''application/json'')],
                  req_body = Credentials email password, req_timeout = None\<rparr> net)
          (\<lambda>res.
             if \<not> ok res then reject (Error ''Login failed'')
             else
               andThen (res_json res) (\<lambda>data.
               andThen (writes (storeSession data)) (\<lambda>_.
               resolve (auth_user data)))))
       w"

definition register :: "string \<Rightarrow> string \<Rightarrow> string \<Rightarrow> auth_data fetch_outcome \<Rightarrow> obj promise" where
  "register email password name net w =
     (if \<not> isOnline w then reject (Error ''Offline. Cannot register.'')
      else
        andThen
          (fetch \<lparr>req_method = ''POST'', req_url = API_URL w @ ''/auth/register'',
                  req_headers = [(''Content-Type'', ''application/json'')],
                  req_body = Registration email password name, req_timeout = None\<rparr> net)
          (\<lambda>res.
             if \<not> ok res then reject (Error ''Registration failed'')
             else
               andThen (res_json res) (\<lambda>data.
               andThen (writes (storeSession data)) (\<lambda>_.
               resolve (auth_user data)))))
       w"

definition getMe :: "obj fetch_outcome \<Rightarrow> obj option promise" where
  "getMe net w =
     andThen
       (if truthy (token w) \<and> isOnline w then
          tryCatch
            (andThen
               (fetch \<lparr>req_method = ''GET'', req_url = API_URL w @ ''/auth/me'',
                       req_headers = getHeaders w, req_body = NoBody, req_timeout = None\<rparr> net)
               (\<lambda>res.
                  if ok res then
                    andThen (res_json res) (\<lambda>user.
                    andThen (writes (setLocal KEYS_USER (Some user))) (\<lambda>_.
                    resolve (Some user)))
                  else resolve None))
            (\<lambda>e. resolve None)
        else resolve None)
       (\<lambda>returned. case returned of
            Some user \<Rightarrow> resolve (Some user)
          | None \<Rightarrow> reads (getLocal KEYS_USER None))
       w"

text \<open>\<^verbatim>\<open>{ ...current }\<close>: spreading \<^verbatim>\<open>null\<close> adds no property.\<close>

definition spread :: "obj option \<Rightarrow> obj" where
  "spread current = (case current of None \<Rightarrow> Map.empty | Some c \<Rightarrow> c)"

definition saveProfile :: "obj \<Rightarrow> obj promise" where
  "saveProfile profile =
     andThen (reads (getLocal KEYS_USER (Some Map.empty))) (\<lambda>current.
     let updated = spread current ++ profile in
     andThen (writes (setLocal KEYS_USER (Some updated))) (\<lambda>_.
     resolve updated))"

text \<open>
  \<^verbatim>\<open>savePreferences\<close> does not await its request; a rejection goes to the handler of
  \<^verbatim>\<open>.catch\<close>, so the call is the best-effort write of the other operations.
\<close>

definition savePreferences ::
  "string \<Rightarrow> string \<Rightarrow> bool \<Rightarrow> 'r fetch_outcome \<Rightarrow> unit promise" where
  "savePreferences themeMode colorScheme enableSeasonal net w =
     andThen
       (bestEffort (truthy (token w) \<and> isOnline w)
          \<lparr>req_method = ''PUT'', req_url = API_URL w @ ''/user/preferences'',
           req_headers = getHeaders w,
           req_body = Preferences themeMode colorScheme enableSeasonal,
           req_timeout = None\<rparr> net)
       (\<lambda>_. andThen (reads (getLocal KEYS_USER (Some Map.empty))) (\<lambda>current.
             let updated = (spread current)
                   (''themeMode'' \<mapsto> JStr themeMode, ''colorScheme'' \<mapsto> JStr colorScheme,
                    ''enableSeasonal'' \<mapsto> JBool enableSeasonal) in
             writes (setLocal KEYS_USER (Some updated))))
       w"

definition logout :: "world \<Rightarrow> world" where
  "logout w =
     removeItem KEYS_USER
       (w\<lparr>token := None, localStorage := (localStorage w)\<lparr>ls_token := None\<rparr>\<rparr>)"

section \<open>The server's handler of POST /api/community\<close>

text \<open>
  The fields the handler takes from \<^verbatim>\<open>req.body\<close>; the id may be missing. The store is
  \<^verbatim>\<open>db.data.community\<close>; \<open>uuid\<close> is what \<^verbatim>\<open>generateUUID()\<close> returns and \<open>now\<close> what
  \<^verbatim>\<open>Date.now()\<close> returns.
\<close>

record community_post =
  post_id :: "string option"
  post_type :: item_type
  post_title :: string
  post_description :: string
  post_author :: string
  post_data :: "Deck + Note"

record post_reply =
  reply_success :: bool
  reply_message :: "string option"
  reply_id :: "string option"

definition post_community ::
  "community_post \<Rightarrow> string \<Rightarrow> int \<Rightarrow> CommunityItem list \<Rightarrow> post_reply \<times> CommunityItem list" where
  "post_community body uuid now community =
     (if find (\<lambda>i. Some (ci_id i) = post_id body) community \<noteq> None
      then (\<lparr>reply_success = True, reply_message = Some ''Already shared'', reply_id = None\<rparr>,
            community)
      else
        let newItem =
          \<lparr>ci_id = (case post_id body of
                      None \<Rightarrow> uuid
                    | Some i \<Rightarrow> if i \<noteq> [] then i else uuid),
           ci_type = post_type body, ci_title = post_title body,
           ci_description = post_description body, ci_author = post_author body,
           ci_data = post_data body, ci_downloads = 0, ci_timestamp = now\<rparr>
        in (\<lparr>reply_success = True, reply_message = None, reply_id = Some (ci_id newItem)\<rparr>,
            newItem # community))"

section \<open>Example states\<close>

text \<open>Concrete entities and states, used to run the operations on explicit inputs.\<close>

definition storage0 :: local_storage where
  "storage0 =
     \<lparr>ls_user = Absent, ls_token = None, ls_decks = Absent, ls_notes = Absent,
      ls_tests = Absent, ls_stats = Absent, ls_chats = Absent, ls_community = Absent\<rparr>"

definition deck1 :: Deck where
  "deck1 = \<lparr>deck_id = ''d1'', deck_title = ''Old'', deck_description = [],
            deck_cards = [], deck_createdAt = 1\<rparr>"

definition deck1' :: Deck where
  "deck1' = deck1\<lparr>deck_title := ''New''\<rparr>"

definition deck2 :: Deck where
  "deck2 = \<lparr>deck_id = ''d2'', deck_title = ''Other'', deck_description = [],
            deck_cards = [], deck_createdAt = 2\<rparr>"

definition deck1'' :: Deck where
  "deck1'' = deck1\<lparr>deck_title := ''Newer''\<rparr>"

definition deck3 :: Deck where
  "deck3 = \<lparr>deck_id = ''d3'', deck_title = ''Third'', deck_description = ''About'',
            deck_cards = [], deck_createdAt = 3\<rparr>"

definition note1 :: Note where
  "note1 = \<lparr>note_id = ''n1'', note_title = ''Old'', note_subject = ''Math'',
            note_content = [], note_background = ''grid'', note_createdAt = 1,
            note_lastModified = 1\<rparr>"

definition note1' :: Note where
  "note1' = note1\<lparr>note_title := ''New'', note_lastModified := 2\<rparr>"

definition note2 :: Note where
  "note2 = note1\<lparr>note_id := ''n2''\<rparr>"

definition test1 :: Test where
  "test1 = \<lparr>test_id = ''t1'', test_title = ''Algebra'', test_date = 10, test_topics = []\<rparr>"

definition test2 :: Test where
  "test2 = \<lparr>test_id = ''t2'', test_title = ''Biology'', test_date = 5, test_topics = []\<rparr>"

definition chat1 :: ChatSession where
  "chat1 = \<lparr>chat_id = ''c1'', chat_title = ''Old'', chat_messages = [], chat_lastActive = 1\<rparr>"

definition chat1' :: ChatSession where
  "chat1' = chat1\<lparr>chat_messages := [''hello''], chat_lastActive := 2\<rparr>"

definition chat2 :: ChatSession where
  "chat2 = chat1\<lparr>chat_id := ''c2''\<rparr>"

definition stats1 :: UserStats where
  "stats1 = \<lparr>stats_xp = 40, stats_goals = []\<rparr>"

definition stats2 :: UserStats where
  "stats2 = \<lparr>stats_xp = 50, stats_goals = [''daily'']\<rparr>"

definition item1 :: CommunityItem where
  "item1 = \<lparr>ci_id = ''x1'', ci_type = DeckT, ci_title = ''Old'', ci_description = ''About'',
            ci_author = ''Ann'', ci_data = Inl deck1, ci_downloads = 5, ci_timestamp = 1\<rparr>"

definition item2 :: CommunityItem where
  "item2 = item1\<lparr>ci_id := ''x2'', ci_downloads := 7\<rparr>"

text \<open>An item whose counter is \<open>2 ^ 53\<close>, which is a double.\<close>

definition itemBig :: CommunityItem where
  "itemBig = item1\<lparr>ci_id := ''big'', ci_downloads := 9007199254740992\<rparr>"

text \<open>A post of an item whose id is \<^verbatim>\<open>x1\<close>.\<close>

definition post1 :: community_post where
  "post1 = \<lparr>post_id = Some ''x1'', post_type = DeckT, post_title = ''Again'',
            post_description = ''About'', post_author = ''Ann'', post_data = Inl deck1\<rparr>"

text \<open>A network that is down, and the clock of the examples.\<close>

definition down :: "'a fetch_outcome" where
  "down = Rejects (Error ''Failed to fetch'')"

definition clock0 :: "nat \<Rightarrow> int" where
  "clock0 k = 1000000 + int k"

text \<open>
  A state without credential and off line. Its mirrors hold two decks, one note, one
  test, the stats and one chat session; the community cache is empty.
\<close>

definition offline0 :: world where
  "offline0 =
     \<lparr>token = None,
      localStorage = storage0\<lparr>ls_decks := Stored [deck2, deck1], ls_notes := Stored [note1],
        ls_tests := Stored [test1], ls_stats := Stored (Some stats1),
        ls_chats := Stored [chat1]\<rparr>,
      navigator_onLine = Some False, hostname = ''localhost'', requests = []\<rparr>"

text \<open>The same storage, with a credential and on line.\<close>

definition online0 :: world where
  "online0 = offline0\<lparr>token := Some ''jwt'', navigator_onLine := Some True\<rparr>"

text \<open>The same states with two items in the community cache.\<close>

definition shared_offline0 :: world where
  "shared_offline0 =
     offline0\<lparr>localStorage := (localStorage offline0)\<lparr>ls_community := Stored [item2, item1]\<rparr>\<rparr>"

definition shared_online0 :: world where
  "shared_online0 =
     online0\<lparr>localStorage := (localStorage online0)\<lparr>ls_community := Stored [item2, item1]\<rparr>\<rparr>"

text \<open>The state \<open>online0\<close> with that item alone in the community cache.\<close>

definition big_online0 :: world where
  "big_online0 =
     online0\<lparr>localStorage := (localStorage online0)\<lparr>ls_community := Stored [itemBig]\<rparr>\<rparr>"

section \<open>Auxiliary lemmas\<close>

subsection \<open>Numbers\<close>

declare ulp.simps [simp del]

lemma ulp_small: "m < 2 ^ 53 \<Longrightarrow> ulp m = 1"
  by (subst ulp.simps) simp

text \<open>An integer of magnitude below \<open>2 ^ 53\<close> is a double.\<close>

lemma roundToDouble_small:
  assumes "\<bar>n\<bar> < 2 ^ 53"
  shows "roundToDouble n = n"
proof -
  from assms have "nat \<bar>n\<bar> < 2 ^ 53" by (simp add: nat_less_iff)
  then have "ulp (nat \<bar>n\<bar>) = 1" by (rule ulp_small)
  then show ?thesis by (simp add: roundToDouble_def Let_def sgn_if)
qed

lemma roundToDouble_2_53: "roundToDouble 9007199254740992 = 9007199254740992"
proof -
  have "ulp 9007199254740992 = 2"
    by (subst ulp.simps) (simp add: ulp_small)
  then show ?thesis by (simp add: roundToDouble_def Let_def)
qed

text \<open>\<open>2 ^ 53 + 1\<close> lies between the doubles \<open>2 ^ 53\<close> and \<open>2 ^ 53 + 2\<close>; the tie goes down.\<close>

lemma roundToDouble_2_53_1: "roundToDouble 9007199254740993 = 9007199254740992"
proof -
  have "ulp 9007199254740993 = 2"
    by (subst ulp.simps) (simp add: ulp_small)
  then show ?thesis by (simp add: roundToDouble_def Let_def)
qed

text \<open>Adding 1 to a safe integer is exact.\<close>

lemma plusNumber_safe:
  assumes "\<bar>c\<bar> < 2 ^ 53"
  shows "plusNumber c 1 = c + 1"
proof (cases "c + 1 = 2 ^ 53")
  case True
  then show ?thesis by (simp add: plusNumber_def roundToDouble_2_53)
next
  case False
  with assms have "\<bar>c + 1\<bar> < 2 ^ 53" by simp
  then show ?thesis by (simp add: plusNumber_def roundToDouble_small)
qed

lemma plusNumber_2_53: "plusNumber 9007199254740992 1 = 9007199254740992"
  by (simp add: plusNumber_def roundToDouble_2_53_1)


lemmas promise_defs =
  resolve_def reject_def andThen_def tryCatch_def reads_def writes_def fetch_def res_json_def

lemmas KEYS_defs = KEYS_USER_def KEYS_DECKS_def KEYS_NOTES_def KEYS_TESTS_def KEYS_STATS_def
  KEYS_CHATS_def KEYS_COMMUNITY_def

text \<open>The best-effort write never throws and only extends the log of requests.\<close>

lemma bestEffort_eq:
  "bestEffort c req net w = (Inr (), if c then w\<lparr>requests := requests w @ [req]\<rparr> else w)"
  by (cases net) (simp_all add: bestEffort_def promise_defs)

lemmas eval_defs = promise_defs bestEffort_eq getLocal_def setLocal_def KEYS_defs truthy_def
  isOnline_def API_URL_def isLocal_def getHeaders_def findIndex_def

lemmas example_defs = storage0_def offline0_def online0_def shared_offline0_def
  shared_online0_def big_online0_def down_def

lemma getLocal_requests [simp]: "getLocal k d (w\<lparr>requests := r\<rparr>) = getLocal k d w"
  by (simp add: getLocal_def)

lemma mirror_after:
  "localStorage w' = localStorage (setLocal KEYS_DECKS decks w) \<Longrightarrow>
     getLocal KEYS_DECKS ds w' = decks"
  "localStorage w' = localStorage (setLocal KEYS_NOTES notes w) \<Longrightarrow>
     getLocal KEYS_NOTES ns w' = notes"
  "localStorage w' = localStorage (setLocal KEYS_TESTS tests w) \<Longrightarrow>
     getLocal KEYS_TESTS ts w' = tests"
  "localStorage w' = localStorage (setLocal KEYS_CHATS chats w) \<Longrightarrow>
     getLocal KEYS_CHATS cs w' = chats"
  "localStorage w' = localStorage (setLocal KEYS_COMMUNITY items w) \<Longrightarrow>
     getLocal KEYS_COMMUNITY is w' = items"
  by (simp_all add: getLocal_def setLocal_def KEYS_defs)

subsection \<open>\<^verbatim>\<open>findIndex\<close>\<close>

lemma findIndexFrom_absent:
  "\<forall>x \<in> set xs. \<not> P x \<Longrightarrow> findIndexFrom P xs k = -1"
  by (induction xs arbitrary: k) auto

lemma findIndexFrom_present:
  "\<exists>x \<in> set xs. P x \<Longrightarrow>
   \<exists>n<length xs. findIndexFrom P xs k = k + int n \<and> P (xs ! n) \<and> (\<forall>j<n. \<not> P (xs ! j))"
proof (induction xs arbitrary: k)
  case Nil
  then show ?case by simp
next
  case (Cons x xs)
  show ?case
  proof (cases "P x")
    case True
    then show ?thesis by (intro exI[of _ 0]) simp
  next
    case False
    with Cons.prems have "\<exists>x \<in> set xs. P x" by simp
    from Cons.IH[OF this, of "k + 1"] obtain n where n: "n < length xs"
      "findIndexFrom P xs (k + 1) = k + 1 + int n" "P (xs ! n)" "\<forall>j<n. \<not> P (xs ! j)"
      by blast
    show ?thesis
    proof (intro exI[of _ "Suc n"] conjI)
      show "\<forall>j<Suc n. \<not> P ((x # xs) ! j)"
        using n(4) False by (auto simp: less_Suc_eq_0_disj)
    qed (use n False in auto)
  qed
qed

subsection \<open>The storage after a delete\<close>

lemma deleteDeck_storage:
  "localStorage (snd (deleteDeck i net w)) =
     localStorage (setLocal KEYS_DECKS (filter (\<lambda>d. deck_id d \<noteq> i) (getLocal KEYS_DECKS [] w)) w)"
  by (simp add: deleteDeck_def bestEffort_eq promise_defs setLocal_def)

lemma deleteNote_storage:
  "localStorage (snd (deleteNote i net w)) =
     localStorage (setLocal KEYS_NOTES (filter (\<lambda>n. note_id n \<noteq> i) (getLocal KEYS_NOTES [] w)) w)"
  by (simp add: deleteNote_def bestEffort_eq promise_defs setLocal_def)

lemma deleteTest_storage:
  "localStorage (snd (deleteTest i net w)) =
     localStorage (setLocal KEYS_TESTS (filter (\<lambda>t. test_id t \<noteq> i) (getLocal KEYS_TESTS [] w)) w)"
  by (simp add: deleteTest_def bestEffort_eq promise_defs setLocal_def)

section \<open>Deleting an item is idempotent\<close>

text \<open>
  Claim C7. For each of the three delete operations (\<^verbatim>\<open>deleteDeck\<close>, \<^verbatim>\<open>deleteNote\<close>,
  \<^verbatim>\<open>deleteTest\<close>) and every id, whatever the network does with the two requests: the
  local storage after deleting twice in succession is the local storage after deleting
  once, and after one delete no item of the mirror has that id.
\<close>

theorem delete_idempotent:
  "localStorage (snd (deleteDeck i net2 (snd (deleteDeck i net1 w)))) =
     localStorage (snd (deleteDeck i net1 w))
   \<and> i \<notin> deck_id ` set (getLocal KEYS_DECKS [] (snd (deleteDeck i net1 w)))
   \<and> localStorage (snd (deleteNote i net2 (snd (deleteNote i net1 w)))) =
     localStorage (snd (deleteNote i net1 w))
   \<and> i \<notin> note_id ` set (getLocal KEYS_NOTES [] (snd (deleteNote i net1 w)))
   \<and> localStorage (snd (deleteTest i net2 (snd (deleteTest i net1 w)))) =
     localStorage (snd (deleteTest i net1 w))
   \<and> i \<notin> test_id ` set (getLocal KEYS_TESTS [] (snd (deleteTest i net1 w)))"
proof -
  let ?w1 = "snd (deleteDeck i net1 w)"
  have m1: "getLocal KEYS_DECKS [] ?w1 = filter (\<lambda>d. deck_id d \<noteq> i) (getLocal KEYS_DECKS [] w)"
    by (rule mirror_after(1)) (rule deleteDeck_storage)
  have d: "localStorage (snd (deleteDeck i net2 ?w1)) = localStorage ?w1"
    by (simp add: deleteDeck_storage[of i net2] m1)
       (simp add: deleteDeck_storage setLocal_def KEYS_defs)
  let ?w2 = "snd (deleteNote i net1 w)"
  have m2: "getLocal KEYS_NOTES [] ?w2 = filter (\<lambda>n. note_id n \<noteq> i) (getLocal KEYS_NOTES [] w)"
    by (rule mirror_after(2)) (rule deleteNote_storage)
  have n: "localStorage (snd (deleteNote i net2 ?w2)) = localStorage ?w2"
    by (simp add: deleteNote_storage[of i net2] m2)
       (simp add: deleteNote_storage setLocal_def KEYS_defs)
  let ?w3 = "snd (deleteTest i net1 w)"
  have m3: "getLocal KEYS_TESTS [] ?w3 = filter (\<lambda>t. test_id t \<noteq> i) (getLocal KEYS_TESTS [] w)"
    by (rule mirror_after(3)) (rule deleteTest_storage)
  have t: "localStorage (snd (deleteTest i net2 ?w3)) = localStorage ?w3"
    by (simp add: deleteTest_storage[of i net2] m3)
       (simp add: deleteTest_storage setLocal_def KEYS_defs)
  show ?thesis
    using d n t by (auto simp: m1 m2 m3)
qed

text \<open>
  On line with a credential and a network that is down, deleting \<^verbatim>\<open>d1\<close> from the mirror
  \<open>[deck2, deck1]\<close> leaves \<open>[deck2]\<close>, and so does deleting it again.
\<close>

theorem delete_idempotent_witness:
  "getLocal KEYS_DECKS []
     (snd (deleteDeck ''d1'' (down :: unit fetch_outcome) online0)) = [deck2]
   \<and> localStorage
       (snd (deleteDeck ''d1'' (down :: unit fetch_outcome)
          (snd (deleteDeck ''d1'' (down :: unit fetch_outcome) online0)))) =
     localStorage (snd (deleteDeck ''d1'' (down :: unit fetch_outcome) online0))"
proof -
  have "getLocal KEYS_DECKS []
          (snd (deleteDeck ''d1'' (down :: unit fetch_outcome) online0)) = [deck2]"
    by (simp add: deleteDeck_def eval_defs example_defs deck1_def deck2_def)
  then show ?thesis
    using delete_idempotent[of "''d1''" "down :: unit fetch_outcome"
       "down :: unit fetch_outcome" online0]
    by simp
qed

section \<open>Logging out keeps the cached collections\<close>

text \<open>
  Claim C10. \<^verbatim>\<open>logout()\<close> sets the in-memory token to \<^verbatim>\<open>null\<close> and removes the stored
  token from the local storage, and the items of the decks, notes, tests, stats, chats and
  community cache in the local storage are what they were before.
\<close>

theorem logout_frame:
  "token (logout w) = None
   \<and> ls_token (localStorage (logout w)) = None
   \<and> ls_decks (localStorage (logout w)) = ls_decks (localStorage w)
   \<and> ls_notes (localStorage (logout w)) = ls_notes (localStorage w)
   \<and> ls_tests (localStorage (logout w)) = ls_tests (localStorage w)
   \<and> ls_stats (localStorage (logout w)) = ls_stats (localStorage w)
   \<and> ls_chats (localStorage (logout w)) = ls_chats (localStorage w)
   \<and> ls_community (localStorage (logout w)) = ls_community (localStorage w)"
  by (simp add: logout_def removeItem_def KEYS_USER_def)

text \<open>Logging out of \<open>online0\<close>: no token is left, and the two decks still are in the mirror.\<close>

theorem logout_frame_witness:
  "token (logout online0) = None
   \<and> ls_token (localStorage (logout online0)) = None
   \<and> ls_decks (localStorage (logout online0)) = Stored [deck2, deck1]"
  using logout_frame[of online0]
  by (simp add: example_defs)

section \<open>Upserts\<close>

subsection \<open>Replacing at the index \<^verbatim>\<open>findIndex\<close> gives\<close>

lemma findIndexFrom_update:
  "\<exists>x \<in> set xs. P x \<Longrightarrow>
   k \<le> findIndexFrom P xs k \<and>
   xs[nat (findIndexFrom P xs k - k) := y] =
     takeWhile (\<lambda>x. \<not> P x) xs @ y # tl (dropWhile (\<lambda>x. \<not> P x) xs)"
proof (induction xs arbitrary: k)
  case Nil
  then show ?case by simp
next
  case (Cons x xs)
  show ?case
  proof (cases "P x")
    case True
    then show ?thesis by simp
  next
    case False
    with Cons.prems have "\<exists>x \<in> set xs. P x" by simp
    from Cons.IH[OF this, of "k + 1"]
    have le: "k + 1 \<le> findIndexFrom P xs (k + 1)"
      and upd: "xs[nat (findIndexFrom P xs (k + 1) - (k + 1)) := y] =
        takeWhile (\<lambda>x. \<not> P x) xs @ y # tl (dropWhile (\<lambda>x. \<not> P x) xs)"
      by simp_all
    from le have "nat (findIndexFrom P xs (k + 1) - k) =
        Suc (nat (findIndexFrom P xs (k + 1) - (k + 1)))"
      by linarith
    with False le upd show ?thesis by simp
  qed
qed

lemma findIndex_update:
  assumes "\<exists>x \<in> set xs. P x"
  shows "findIndex P xs \<noteq> -1"
    and "xs[nat (findIndex P xs) := y] =
      takeWhile (\<lambda>x. \<not> P x) xs @ y # tl (dropWhile (\<lambda>x. \<not> P x) xs)"
  using findIndexFrom_update[OF assms, of 0 y] by (simp_all add: findIndex_def)

lemma findIndex_absent: "\<forall>x \<in> set xs. \<not> P x \<Longrightarrow> findIndex P xs = -1"
  by (simp add: findIndex_def findIndexFrom_absent)

lemma filter_replace_first:
  "P y \<Longrightarrow> \<exists>x \<in> set xs. P x \<Longrightarrow>
   length (filter P (takeWhile (\<lambda>x. \<not> P x) xs @ y # tl (dropWhile (\<lambda>x. \<not> P x) xs))) =
   length (filter P xs)"
  by (induction xs) auto

subsection \<open>The storage after an upsert\<close>

lemma createDeck_storage:
  "localStorage (snd (createDeck deck net w)) =
     localStorage (setLocal KEYS_DECKS (deck # getLocal KEYS_DECKS [] w) w)"
  by (simp add: createDeck_def bestEffort_eq promise_defs setLocal_def)

lemma updateDeck_storage:
  "localStorage (snd (updateDeck deck net w)) =
     (if findIndex (\<lambda>d. deck_id d = deck_id deck) (getLocal KEYS_DECKS [] w) \<noteq> -1
      then localStorage (setLocal KEYS_DECKS
             ((getLocal KEYS_DECKS [] w)
                [nat (findIndex (\<lambda>d. deck_id d = deck_id deck) (getLocal KEYS_DECKS [] w)) := deck]) w)
      else localStorage w)"
  by (simp add: updateDeck_def bestEffort_eq promise_defs setLocal_def Let_def)

lemma saveNote_storage:
  "localStorage (snd (saveNote note net w)) =
     localStorage (setLocal KEYS_NOTES
       (if findIndex (\<lambda>n. note_id n = note_id note) (getLocal KEYS_NOTES [] w) \<noteq> -1
        then (getLocal KEYS_NOTES [] w)
               [nat (findIndex (\<lambda>n. note_id n = note_id note) (getLocal KEYS_NOTES [] w)) := note]
        else note # getLocal KEYS_NOTES [] w) w)"
  by (simp add: saveNote_def bestEffort_eq promise_defs setLocal_def Let_def)

lemma saveChatSession_storage:
  "localStorage (snd (saveChatSession session net w)) =
     localStorage (setLocal KEYS_CHATS
       (if findIndex (\<lambda>s. chat_id s = chat_id session) (getLocal KEYS_CHATS [] w) \<noteq> -1
        then (getLocal KEYS_CHATS [] w)
               [nat (findIndex (\<lambda>s. chat_id s = chat_id session) (getLocal KEYS_CHATS [] w)) := session]
        else session # getLocal KEYS_CHATS [] w) w)"
  by (simp add: saveChatSession_def bestEffort_eq promise_defs setLocal_def Let_def)

lemma addTest_storage:
  "localStorage (snd (addTest test net w)) =
     localStorage (setLocal KEYS_TESTS (getLocal KEYS_TESTS [] w @ [test]) w)"
  by (simp add: addTest_def bestEffort_eq promise_defs setLocal_def)

subsection \<open>An item whose id is in the mirror\<close>

text \<open>
  Claim C1, as amended. When \<^verbatim>\<open>updateDeck\<close>, \<^verbatim>\<open>saveNote\<close> or \<^verbatim>\<open>saveChatSession\<close> is called
  with an item whose id occurs in the local mirror, the mirror after the call is the
  mirror before with the first item of that id replaced by the new item: the items
  before it, the new item, the items after it. So the position is kept and the number of
  items with that id is the same as before (one when it was one). \<^verbatim>\<open>createDeck\<close> looks
  nothing up: it puts the deck at the head of the mirror, whether or not its id occurs.
\<close>

theorem upsert_existing_id:
  "(deck_id deck \<in> deck_id ` set (getLocal KEYS_DECKS [] w) \<longrightarrow>
      getLocal KEYS_DECKS [] (snd (updateDeck deck net w)) =
        takeWhile (\<lambda>d. deck_id d \<noteq> deck_id deck) (getLocal KEYS_DECKS [] w)
        @ deck # tl (dropWhile (\<lambda>d. deck_id d \<noteq> deck_id deck) (getLocal KEYS_DECKS [] w))
      \<and> length (filter (\<lambda>d. deck_id d = deck_id deck)
                  (getLocal KEYS_DECKS [] (snd (updateDeck deck net w)))) =
        length (filter (\<lambda>d. deck_id d = deck_id deck) (getLocal KEYS_DECKS [] w)))
   \<and> (note_id note \<in> note_id ` set (getLocal KEYS_NOTES [] w) \<longrightarrow>
      getLocal KEYS_NOTES [] (snd (saveNote note net w)) =
        takeWhile (\<lambda>n. note_id n \<noteq> note_id note) (getLocal KEYS_NOTES [] w)
        @ note # tl (dropWhile (\<lambda>n. note_id n \<noteq> note_id note) (getLocal KEYS_NOTES [] w))
      \<and> length (filter (\<lambda>n. note_id n = note_id note)
                  (getLocal KEYS_NOTES [] (snd (saveNote note net w)))) =
        length (filter (\<lambda>n. note_id n = note_id note) (getLocal KEYS_NOTES [] w)))
   \<and> (chat_id session \<in> chat_id ` set (getLocal KEYS_CHATS [] w) \<longrightarrow>
      getLocal KEYS_CHATS [] (snd (saveChatSession session net w)) =
        takeWhile (\<lambda>s. chat_id s \<noteq> chat_id session) (getLocal KEYS_CHATS [] w)
        @ session # tl (dropWhile (\<lambda>s. chat_id s \<noteq> chat_id session) (getLocal KEYS_CHATS [] w))
      \<and> length (filter (\<lambda>s. chat_id s = chat_id session)
                  (getLocal KEYS_CHATS [] (snd (saveChatSession session net w)))) =
        length (filter (\<lambda>s. chat_id s = chat_id session) (getLocal KEYS_CHATS [] w)))
   \<and> getLocal KEYS_DECKS [] (snd (createDeck deck net w)) = deck # getLocal KEYS_DECKS [] w"
proof (intro conjI impI)
  assume a: "deck_id deck \<in> deck_id ` set (getLocal KEYS_DECKS [] w)"
  let ?P = "\<lambda>d. deck_id d = deck_id deck"
  from a have ex: "\<exists>x \<in> set (getLocal KEYS_DECKS [] w). ?P x" by auto
  have "localStorage (snd (updateDeck deck net w)) =
      localStorage (setLocal KEYS_DECKS
        (takeWhile (\<lambda>x. \<not> ?P x) (getLocal KEYS_DECKS [] w)
         @ deck # tl (dropWhile (\<lambda>x. \<not> ?P x) (getLocal KEYS_DECKS [] w))) w)"
    by (simp add: updateDeck_storage findIndex_update[OF ex])
  from mirror_after(1)[OF this]
  show m: "getLocal KEYS_DECKS [] (snd (updateDeck deck net w)) =
        takeWhile (\<lambda>d. deck_id d \<noteq> deck_id deck) (getLocal KEYS_DECKS [] w)
        @ deck # tl (dropWhile (\<lambda>d. deck_id d \<noteq> deck_id deck) (getLocal KEYS_DECKS [] w))" .
  show "length (filter ?P (getLocal KEYS_DECKS [] (snd (updateDeck deck net w)))) =
        length (filter ?P (getLocal KEYS_DECKS [] w))"
    unfolding m using filter_replace_first[of ?P deck, OF _ ex] by simp
next
  assume a: "note_id note \<in> note_id ` set (getLocal KEYS_NOTES [] w)"
  let ?P = "\<lambda>n. note_id n = note_id note"
  from a have ex: "\<exists>x \<in> set (getLocal KEYS_NOTES [] w). ?P x" by auto
  have "localStorage (snd (saveNote note net w)) =
      localStorage (setLocal KEYS_NOTES
        (takeWhile (\<lambda>x. \<not> ?P x) (getLocal KEYS_NOTES [] w)
         @ note # tl (dropWhile (\<lambda>x. \<not> ?P x) (getLocal KEYS_NOTES [] w))) w)"
    by (simp add: saveNote_storage findIndex_update[OF ex])
  from mirror_after(2)[OF this]
  show m: "getLocal KEYS_NOTES [] (snd (saveNote note net w)) =
        takeWhile (\<lambda>n. note_id n \<noteq> note_id note) (getLocal KEYS_NOTES [] w)
        @ note # tl (dropWhile (\<lambda>n. note_id n \<noteq> note_id note) (getLocal KEYS_NOTES [] w))" .
  show "length (filter ?P (getLocal KEYS_NOTES [] (snd (saveNote note net w)))) =
        length (filter ?P (getLocal KEYS_NOTES [] w))"
    unfolding m using filter_replace_first[of ?P "note", OF _ ex] by simp
next
  assume a: "chat_id session \<in> chat_id ` set (getLocal KEYS_CHATS [] w)"
  let ?P = "\<lambda>s. chat_id s = chat_id session"
  from a have ex: "\<exists>x \<in> set (getLocal KEYS_CHATS [] w). ?P x" by auto
  have "localStorage (snd (saveChatSession session net w)) =
      localStorage (setLocal KEYS_CHATS
        (takeWhile (\<lambda>x. \<not> ?P x) (getLocal KEYS_CHATS [] w)
         @ session # tl (dropWhile (\<lambda>x. \<not> ?P x) (getLocal KEYS_CHATS [] w))) w)"
    by (simp add: saveChatSession_storage findIndex_update[OF ex])
  from mirror_after(4)[OF this]
  show m: "getLocal KEYS_CHATS [] (snd (saveChatSession session net w)) =
        takeWhile (\<lambda>s. chat_id s \<noteq> chat_id session) (getLocal KEYS_CHATS [] w)
        @ session # tl (dropWhile (\<lambda>s. chat_id s \<noteq> chat_id session) (getLocal KEYS_CHATS [] w))" .
  show "length (filter ?P (getLocal KEYS_CHATS [] (snd (saveChatSession session net w)))) =
        length (filter ?P (getLocal KEYS_CHATS [] w))"
    unfolding m using filter_replace_first[of ?P session, OF _ ex] by simp
next
  show "getLocal KEYS_DECKS [] (snd (createDeck deck net w)) = deck # getLocal KEYS_DECKS [] w"
    by (rule mirror_after(1)) (rule createDeck_storage)
qed


text \<open>
  Off line, the mirrors hold \<open>[deck2, deck1]\<close>, \<open>[note1]\<close> and \<open>[chat1]\<close>; the new versions
  of \<open>deck1\<close>, \<open>note1\<close> and \<open>chat1\<close> take the places of the old ones.
\<close>

theorem upsert_existing_id_witness:
  "deck_id deck1' \<in> deck_id ` set (getLocal KEYS_DECKS [] offline0)
   \<and> getLocal KEYS_DECKS [] (snd (updateDeck deck1' (down :: unit fetch_outcome) offline0)) =
       [deck2, deck1']
   \<and> note_id note1' \<in> note_id ` set (getLocal KEYS_NOTES [] offline0)
   \<and> getLocal KEYS_NOTES [] (snd (saveNote note1' (down :: unit fetch_outcome) offline0)) = [note1']
   \<and> chat_id chat1' \<in> chat_id ` set (getLocal KEYS_CHATS [] offline0)
   \<and> getLocal KEYS_CHATS [] (snd (saveChatSession chat1' (down :: unit fetch_outcome) offline0)) =
       [chat1']"
  using upsert_existing_id[of deck1' offline0 "down :: unit fetch_outcome" note1' chat1']
  by (simp add: getLocal_def KEYS_defs example_defs deck1_def deck1'_def deck2_def
      note1_def note1'_def chat1_def chat1'_def)

text \<open>
  The claim as stated fails for \<^verbatim>\<open>createDeck\<close>: creating a deck whose id \<^verbatim>\<open>d1\<close> is in the
  mirror leaves two decks with that id. And from that state \<^verbatim>\<open>updateDeck\<close> replaces the
  first of the two only, so the mirror still has two.
\<close>

theorem upsert_existing_id_counterexample:
  "deck_id deck1' \<in> deck_id ` set (getLocal KEYS_DECKS [] offline0)
   \<and> getLocal KEYS_DECKS [] (snd (createDeck deck1' (down :: unit fetch_outcome) offline0)) =
       [deck1', deck2, deck1]
   \<and> map deck_id
        (getLocal KEYS_DECKS [] (snd (createDeck deck1' (down :: unit fetch_outcome) offline0))) =
       [''d1'', ''d2'', ''d1'']
   \<and> getLocal KEYS_DECKS []
        (snd (updateDeck deck1'' (down :: unit fetch_outcome)
           (snd (createDeck deck1' (down :: unit fetch_outcome) offline0)))) =
       [deck1'', deck2, deck1]"
  by (simp add: createDeck_def updateDeck_def eval_defs example_defs deck1_def deck1'_def
      deck1''_def deck2_def)

subsection \<open>An item whose id is not in the mirror\<close>

text \<open>
  Claim C3, as amended. When the id of the item does not occur in the local mirror:
  \<^verbatim>\<open>createDeck\<close>, \<^verbatim>\<open>saveNote\<close> and \<^verbatim>\<open>saveChatSession\<close> put the item at the head of the
  mirror, before the items it had; \<^verbatim>\<open>updateDeck\<close> leaves the local storage as it was;
  \<^verbatim>\<open>addTest\<close> puts the test at the end of the mirror, after the items it had.
\<close>

theorem upsert_new_id:
  "(deck_id deck \<notin> deck_id ` set (getLocal KEYS_DECKS [] w) \<longrightarrow>
      getLocal KEYS_DECKS [] (snd (createDeck deck net w)) = deck # getLocal KEYS_DECKS [] w
      \<and> localStorage (snd (updateDeck deck net w)) = localStorage w)
   \<and> (note_id note \<notin> note_id ` set (getLocal KEYS_NOTES [] w) \<longrightarrow>
      getLocal KEYS_NOTES [] (snd (saveNote note net w)) = note # getLocal KEYS_NOTES [] w)
   \<and> (chat_id session \<notin> chat_id ` set (getLocal KEYS_CHATS [] w) \<longrightarrow>
      getLocal KEYS_CHATS [] (snd (saveChatSession session net w)) =
        session # getLocal KEYS_CHATS [] w)
   \<and> (test_id test \<notin> test_id ` set (getLocal KEYS_TESTS [] w) \<longrightarrow>
      getLocal KEYS_TESTS [] (snd (addTest test net w)) = getLocal KEYS_TESTS [] w @ [test])"
proof (intro conjI impI)
  assume "deck_id deck \<notin> deck_id ` set (getLocal KEYS_DECKS [] w)"
  then have "findIndex (\<lambda>d. deck_id d = deck_id deck) (getLocal KEYS_DECKS [] w) = -1"
    by (intro findIndex_absent) (force simp: image_iff)
  then show "localStorage (snd (updateDeck deck net w)) = localStorage w"
    by (simp add: updateDeck_storage)
  show "getLocal KEYS_DECKS [] (snd (createDeck deck net w)) = deck # getLocal KEYS_DECKS [] w"
    by (rule mirror_after(1)) (rule createDeck_storage)
next
  assume "note_id note \<notin> note_id ` set (getLocal KEYS_NOTES [] w)"
  then have "findIndex (\<lambda>n. note_id n = note_id note) (getLocal KEYS_NOTES [] w) = -1"
    by (intro findIndex_absent) (force simp: image_iff)
  then have "localStorage (snd (saveNote note net w)) =
      localStorage (setLocal KEYS_NOTES (note # getLocal KEYS_NOTES [] w) w)"
    by (simp add: saveNote_storage)
  then show "getLocal KEYS_NOTES [] (snd (saveNote note net w)) = note # getLocal KEYS_NOTES [] w"
    by (rule mirror_after(2))
next
  assume "chat_id session \<notin> chat_id ` set (getLocal KEYS_CHATS [] w)"
  then have "findIndex (\<lambda>s. chat_id s = chat_id session) (getLocal KEYS_CHATS [] w) = -1"
    by (intro findIndex_absent) (force simp: image_iff)
  then have "localStorage (snd (saveChatSession session net w)) =
      localStorage (setLocal KEYS_CHATS (session # getLocal KEYS_CHATS [] w) w)"
    by (simp add: saveChatSession_storage)
  then show "getLocal KEYS_CHATS [] (snd (saveChatSession session net w)) =
      session # getLocal KEYS_CHATS [] w"
    by (rule mirror_after(4))
next
  show "getLocal KEYS_TESTS [] (snd (addTest test net w)) = getLocal KEYS_TESTS [] w @ [test]"
    by (rule mirror_after(3)) (rule addTest_storage)
qed

text \<open>Off line, with ids \<^verbatim>\<open>d3\<close>, \<^verbatim>\<open>n2\<close>, \<^verbatim>\<open>c2\<close> and \<^verbatim>\<open>t2\<close> that the mirrors do not have.\<close>

theorem upsert_new_id_witness:
  "deck_id deck3 \<notin> deck_id ` set (getLocal KEYS_DECKS [] offline0)
   \<and> getLocal KEYS_DECKS [] (snd (createDeck deck3 (down :: unit fetch_outcome) offline0)) =
       [deck3, deck2, deck1]
   \<and> localStorage (snd (updateDeck deck3 (down :: unit fetch_outcome) offline0)) =
       localStorage offline0
   \<and> note_id note2 \<notin> note_id ` set (getLocal KEYS_NOTES [] offline0)
   \<and> getLocal KEYS_NOTES [] (snd (saveNote note2 (down :: unit fetch_outcome) offline0)) =
       [note2, note1]
   \<and> chat_id chat2 \<notin> chat_id ` set (getLocal KEYS_CHATS [] offline0)
   \<and> getLocal KEYS_CHATS [] (snd (saveChatSession chat2 (down :: unit fetch_outcome) offline0)) =
       [chat2, chat1]
   \<and> test_id test2 \<notin> test_id ` set (getLocal KEYS_TESTS [] offline0)
   \<and> getLocal KEYS_TESTS [] (snd (addTest test2 (down :: unit fetch_outcome) offline0)) =
       [test1, test2]"
  using upsert_new_id[of deck3 offline0 "down :: unit fetch_outcome" note2 chat2 test2]
  by (simp add: getLocal_def KEYS_defs example_defs deck1_def deck2_def deck3_def
      note1_def note2_def chat1_def chat2_def test1_def test2_def)

text \<open>
  The claim as stated fails for \<^verbatim>\<open>updateDeck\<close> and \<^verbatim>\<open>addTest\<close>: after \<^verbatim>\<open>updateDeck\<close> the
  deck with the new id \<^verbatim>\<open>d3\<close> is not in the mirror, and after \<^verbatim>\<open>addTest\<close> the new test
  is the last element of the mirror, not the first.
\<close>

theorem upsert_new_id_counterexample:
  "deck_id deck3 \<notin> deck_id ` set (getLocal KEYS_DECKS [] offline0)
   \<and> getLocal KEYS_DECKS [] (snd (updateDeck deck3 (down :: unit fetch_outcome) offline0)) =
       [deck2, deck1]
   \<and> deck3 \<notin> set (getLocal KEYS_DECKS [] (snd (updateDeck deck3 (down :: unit fetch_outcome) offline0)))
   \<and> test_id test2 \<notin> test_id ` set (getLocal KEYS_TESTS [] offline0)
   \<and> getLocal KEYS_TESTS [] (snd (addTest test2 (down :: unit fetch_outcome) offline0)) =
       [test1, test2]
   \<and> hd (getLocal KEYS_TESTS [] (snd (addTest test2 (down :: unit fetch_outcome) offline0))) \<noteq> test2"
  by (simp add: updateDeck_def addTest_def eval_defs example_defs deck1_def deck2_def deck3_def
      test1_def test2_def)

section \<open>Reading a collection with a credential and on line\<close>

text \<open>
  Claim C2, as amended. With a credential and on line, a remote fetch succeeds when the
  response has the \<^verbatim>\<open>ok\<close> status and its body parses, and fails otherwise (the request
  is rejected, the status is not \<^verbatim>\<open>ok\<close>, or the body does not parse).
  \<^item> \<^verbatim>\<open>getDecks\<close> and \<^verbatim>\<open>getNotes\<close>: on success the response is returned and the mirror
    is overwritten with it.
  \<^item> \<^verbatim>\<open>getStats\<close>: on success with stats, the same; on success with \<^verbatim>\<open>null\<close>, \<^verbatim>\<open>null\<close> is
    returned and the local storage is unchanged.
  \<^item> \<^verbatim>\<open>getTests\<close> and \<^verbatim>\<open>getChatSessions\<close>: on success the response is returned.
  \<^item> All five: on failure the current mirror is returned and the local storage is
    unchanged.
\<close>

theorem read_collection_online:
  assumes "truthy (token w)" and "isOnline w"
  shows
  "(case netD of
      Resolves (Response True (Inr decks)) \<Rightarrow>
        fst (getDecks netD w) = Inr decks
        \<and> localStorage (snd (getDecks netD w)) = localStorage (setLocal KEYS_DECKS decks w)
    | _ \<Rightarrow>
        fst (getDecks netD w) = Inr (getLocal KEYS_DECKS [] w)
        \<and> localStorage (snd (getDecks netD w)) = localStorage w)
   \<and> (case netN of
      Resolves (Response True (Inr notes)) \<Rightarrow>
        fst (getNotes netN w) = Inr notes
        \<and> localStorage (snd (getNotes netN w)) = localStorage (setLocal KEYS_NOTES notes w)
    | _ \<Rightarrow>
        fst (getNotes netN w) = Inr (getLocal KEYS_NOTES [] w)
        \<and> localStorage (snd (getNotes netN w)) = localStorage w)
   \<and> (case netS of
      Resolves (Response True (Inr (Some stats))) \<Rightarrow>
        fst (getStats netS w) = Inr (Some stats)
        \<and> localStorage (snd (getStats netS w)) =
          localStorage (setLocal KEYS_STATS (Some stats) w)
    | Resolves (Response True (Inr None)) \<Rightarrow>
        fst (getStats netS w) = Inr None
        \<and> localStorage (snd (getStats netS w)) = localStorage w
    | _ \<Rightarrow>
        fst (getStats netS w) = Inr (getLocal KEYS_STATS None w)
        \<and> localStorage (snd (getStats netS w)) = localStorage w)
   \<and> (case netT of
      Resolves (Response True (Inr tests)) \<Rightarrow> fst (getTests netT w) = Inr tests
    | _ \<Rightarrow>
        fst (getTests netT w) = Inr (getLocal KEYS_TESTS [] w)
        \<and> localStorage (snd (getTests netT w)) = localStorage w)
   \<and> (case netC of
      Resolves (Response True (Inr chats)) \<Rightarrow> fst (getChatSessions netC w) = Inr chats
    | _ \<Rightarrow>
        fst (getChatSessions netC w) = Inr (getLocal KEYS_CHATS [] w)
        \<and> localStorage (snd (getChatSessions netC w)) = localStorage w)"
proof (intro conjI)
  show "case netD of
      Resolves (Response True (Inr decks)) \<Rightarrow>
        fst (getDecks netD w) = Inr decks
        \<and> localStorage (snd (getDecks netD w)) = localStorage (setLocal KEYS_DECKS decks w)
    | _ \<Rightarrow>
        fst (getDecks netD w) = Inr (getLocal KEYS_DECKS [] w)
        \<and> localStorage (snd (getDecks netD w)) = localStorage w"
    using assms
    by (simp add: getDecks_def promise_defs setLocal_def
        split: fetch_outcome.split response.split sum.split bool.split)
  show "case netN of
      Resolves (Response True (Inr notes)) \<Rightarrow>
        fst (getNotes netN w) = Inr notes
        \<and> localStorage (snd (getNotes netN w)) = localStorage (setLocal KEYS_NOTES notes w)
    | _ \<Rightarrow>
        fst (getNotes netN w) = Inr (getLocal KEYS_NOTES [] w)
        \<and> localStorage (snd (getNotes netN w)) = localStorage w"
    using assms
    by (simp add: getNotes_def promise_defs setLocal_def
        split: fetch_outcome.split response.split sum.split bool.split)
  show "case netS of
      Resolves (Response True (Inr (Some stats))) \<Rightarrow>
        fst (getStats netS w) = Inr (Some stats)
        \<and> localStorage (snd (getStats netS w)) =
          localStorage (setLocal KEYS_STATS (Some stats) w)
    | Resolves (Response True (Inr None)) \<Rightarrow>
        fst (getStats netS w) = Inr None
        \<and> localStorage (snd (getStats netS w)) = localStorage w
    | _ \<Rightarrow>
        fst (getStats netS w) = Inr (getLocal KEYS_STATS None w)
        \<and> localStorage (snd (getStats netS w)) = localStorage w"
    using assms
    by (simp add: getStats_def promise_defs setLocal_def
        split: fetch_outcome.split response.split sum.split bool.split option.split)
  show "case netT of
      Resolves (Response True (Inr tests)) \<Rightarrow> fst (getTests netT w) = Inr tests
    | _ \<Rightarrow>
        fst (getTests netT w) = Inr (getLocal KEYS_TESTS [] w)
        \<and> localStorage (snd (getTests netT w)) = localStorage w"
    using assms
    by (simp add: getTests_def promise_defs setLocal_def
        split: fetch_outcome.split response.split sum.split bool.split)
  show "case netC of
      Resolves (Response True (Inr chats)) \<Rightarrow> fst (getChatSessions netC w) = Inr chats
    | _ \<Rightarrow>
        fst (getChatSessions netC w) = Inr (getLocal KEYS_CHATS [] w)
        \<and> localStorage (snd (getChatSessions netC w)) = localStorage w"
    using assms
    by (simp add: getChatSessions_def promise_defs setLocal_def
        split: fetch_outcome.split response.split sum.split bool.split)
qed

text \<open>
  In \<open>online0\<close>: a successful fetch of decks and of stats, a response with a status that
  is not \<^verbatim>\<open>ok\<close> for the notes, a rejected request for the tests, and a successful fetch of
  the chat sessions.
\<close>

theorem read_collection_online_witness:
  "truthy (token online0) \<and> isOnline online0
   \<and> fst (getDecks (Resolves (Response True (Inr [deck3]))) online0) = Inr [deck3]
   \<and> getLocal KEYS_DECKS [] (snd (getDecks (Resolves (Response True (Inr [deck3]))) online0)) =
       [deck3]
   \<and> fst (getNotes (Resolves (Response False (Inr [note2]))) online0) = Inr [note1]
   \<and> fst (getStats (Resolves (Response True (Inr (Some stats2)))) online0) = Inr (Some stats2)
   \<and> getLocal KEYS_STATS None
        (snd (getStats (Resolves (Response True (Inr (Some stats2)))) online0)) = Some stats2
   \<and> fst (getTests down online0) = Inr [test1]
   \<and> fst (getChatSessions (Resolves (Response True (Inr [chat2]))) online0) = Inr [chat2]"
proof -
  have h: "truthy (token online0)" "isOnline online0"
    by (simp_all add: truthy_def isOnline_def example_defs)
  show ?thesis
    using h read_collection_online[OF h, of "Resolves (Response True (Inr [deck3]))"
        "Resolves (Response False (Inr [note2]))"
        "Resolves (Response True (Inr (Some stats2)))" down
        "Resolves (Response True (Inr [chat2]))"]
    by (simp add: getLocal_def setLocal_def KEYS_defs example_defs)
qed

text \<open>
  The claim as stated fails in \<open>online0\<close>, whose mirrors hold \<open>stats1\<close>, \<open>[test1]\<close> and
  \<open>[chat1]\<close>. A successful \<^verbatim>\<open>getStats\<close> that answers \<^verbatim>\<open>null\<close> returns \<^verbatim>\<open>null\<close> and the
  mirror still holds \<open>stats1\<close>; a successful \<^verbatim>\<open>getTests\<close> returns \<open>[test2]\<close> and the mirror
  still holds \<open>[test1]\<close>; a successful \<^verbatim>\<open>getChatSessions\<close> returns \<open>[chat2]\<close> and the
  mirror still holds \<open>[chat1]\<close>.
\<close>

theorem read_collection_online_counterexample:
  "truthy (token online0) \<and> isOnline online0
   \<and> fst (getStats (Resolves (Response True (Inr None))) online0) = Inr None
   \<and> getLocal KEYS_STATS None (snd (getStats (Resolves (Response True (Inr None))) online0)) =
       Some stats1
   \<and> fst (getTests (Resolves (Response True (Inr [test2]))) online0) = Inr [test2]
   \<and> getLocal KEYS_TESTS [] (snd (getTests (Resolves (Response True (Inr [test2]))) online0)) =
       [test1]
   \<and> fst (getChatSessions (Resolves (Response True (Inr [chat2]))) online0) = Inr [chat2]
   \<and> getLocal KEYS_CHATS []
        (snd (getChatSessions (Resolves (Response True (Inr [chat2]))) online0)) = [chat1]
   \<and> test1 \<noteq> test2 \<and> chat1 \<noteq> chat2"
  by (simp add: getStats_def getTests_def getChatSessions_def eval_defs example_defs
      test1_def test2_def chat1_def chat2_def)

section \<open>Community\<close>

lemma localShare_present:
  "ci_id item \<in> ci_id ` set (getLocal KEYS_COMMUNITY [] w) \<Longrightarrow> localShare item w = w"
  by (auto simp: localShare_def Let_def find_None_iff)

text \<open>
  Claim C6. Publishing a community item whose id already occurs in the store leaves the
  store unchanged and still succeeds. Locally: \<^verbatim>\<open>_localShare\<close> leaves the whole state as
  it is, and \<^verbatim>\<open>shareToCommunity\<close>, when the id it draws occurs in the community mirror,
  returns without throwing and leaves the local storage unchanged. Remotely: the handler
  of \<^verbatim>\<open>POST /api/community\<close> answers \<^verbatim>\<open>{ success: true, message: "Already shared" }\<close> and
  leaves \<^verbatim>\<open>db.data.community\<close> unchanged.
\<close>

theorem publish_existing_id:
  "(ci_id item \<in> ci_id ` set (getLocal KEYS_COMMUNITY [] w) \<longrightarrow> localShare item w = w)
   \<and> (uuid \<in> ci_id ` set (getLocal KEYS_COMMUNITY [] w) \<longrightarrow>
        fst (shareToCommunity entity type authorName uuid now net w) = Inr ()
        \<and> localStorage (snd (shareToCommunity entity type authorName uuid now net w)) =
          localStorage w)
   \<and> (post_id body = Some i \<and> i \<in> ci_id ` set community \<longrightarrow>
        post_community body uuid' now' community =
          (\<lparr>reply_success = True, reply_message = Some ''Already shared'', reply_id = None\<rparr>,
           community))"
proof (intro conjI impI)
  assume "ci_id item \<in> ci_id ` set (getLocal KEYS_COMMUNITY [] w)"
  then show "localShare item w = w" by (rule localShare_present)
next
  assume a: "uuid \<in> ci_id ` set (getLocal KEYS_COMMUNITY [] w)"
  show "fst (shareToCommunity entity type authorName uuid now net w) = Inr ()"
    by (simp add: shareToCommunity_def Let_def bestEffort_eq promise_defs)
  from a show "localStorage (snd (shareToCommunity entity type authorName uuid now net w)) =
      localStorage w"
    by (simp add: shareToCommunity_def Let_def bestEffort_eq promise_defs localShare_present)
next
  assume "post_id body = Some i \<and> i \<in> ci_id ` set community"
  then have "find (\<lambda>c. Some (ci_id c) = post_id body) community \<noteq> None"
    by (auto simp: find_None_iff)
  then show "post_community body uuid' now' community =
      (\<lparr>reply_success = True, reply_message = Some ''Already shared'', reply_id = None\<rparr>,
       community)"
    by (simp add: post_community_def)
qed

text \<open>
  With \<open>[item2, item1]\<close> in the local mirror and in the server's store, publishing an
  item with the id \<^verbatim>\<open>x1\<close> of \<open>item1\<close>.
\<close>

theorem publish_existing_id_witness:
  "ci_id item1 \<in> ci_id ` set (getLocal KEYS_COMMUNITY [] shared_online0)
   \<and> localShare item1 shared_online0 = shared_online0
   \<and> fst (shareToCommunity (Inl deck1) DeckT ''Ann'' ''x1'' 9 (down :: unit fetch_outcome)
        shared_online0) = Inr ()
   \<and> getLocal KEYS_COMMUNITY []
        (snd (shareToCommunity (Inl deck1) DeckT ''Ann'' ''x1'' 9 (down :: unit fetch_outcome)
           shared_online0)) = [item2, item1]
   \<and> ''x1'' \<in> ci_id ` set [item2, item1]
   \<and> post_community post1 ''fresh'' 9 [item2, item1] =
       (\<lparr>reply_success = True, reply_message = Some ''Already shared'', reply_id = None\<rparr>,
        [item2, item1])"
  using publish_existing_id[of item1 shared_online0 "''x1''" "Inl deck1" DeckT "''Ann''" 9
      "down :: unit fetch_outcome" post1 "''x1''" "[item2, item1]" "''fresh''" 9]
  by (simp add: getLocal_def KEYS_defs example_defs item1_def item2_def post1_def)

text \<open>
  Claim C8, as amended. \<^verbatim>\<open>incrementDownload(id)\<close> never throws. When the id does not
  occur in the local community mirror, the local storage is unchanged. When it occurs,
  the first item with that id (the only one, when ids are not repeated) has its
  \<^verbatim>\<open>downloads\<close> counter replaced by the sum of the counter and 1 as doubles, and every
  other item and every other field is unchanged; when the counter is a safe integer (its
  magnitude is below \<open>2 ^ 53\<close>), that sum is the counter increased by one.
\<close>

theorem increment_download:
  "fst (incrementDownload i net w) = Inr ()
   \<and> (i \<notin> ci_id ` set (getLocal KEYS_COMMUNITY [] w) \<longrightarrow>
        localStorage (snd (incrementDownload i net w)) = localStorage w)
   \<and> (i \<in> ci_id ` set (getLocal KEYS_COMMUNITY [] w) \<longrightarrow>
        (\<exists>n<length (getLocal KEYS_COMMUNITY [] w).
           ci_id (getLocal KEYS_COMMUNITY [] w ! n) = i
           \<and> (\<forall>j<n. ci_id (getLocal KEYS_COMMUNITY [] w ! j) \<noteq> i)
           \<and> getLocal KEYS_COMMUNITY [] (snd (incrementDownload i net w)) =
               (getLocal KEYS_COMMUNITY [] w)
                 [n := (getLocal KEYS_COMMUNITY [] w ! n)
                    \<lparr>ci_downloads :=
                       plusNumber (ci_downloads (getLocal KEYS_COMMUNITY [] w ! n)) 1\<rparr>]
           \<and> (\<bar>ci_downloads (getLocal KEYS_COMMUNITY [] w ! n)\<bar> < 2 ^ 53 \<longrightarrow>
                getLocal KEYS_COMMUNITY [] (snd (incrementDownload i net w)) =
                  (getLocal KEYS_COMMUNITY [] w)
                    [n := (getLocal KEYS_COMMUNITY [] w ! n)
                       \<lparr>ci_downloads :=
                          ci_downloads (getLocal KEYS_COMMUNITY [] w ! n) + 1\<rparr>])))"
proof (intro conjI impI)
  show "fst (incrementDownload i net w) = Inr ()"
    by (simp add: incrementDownload_def bestEffort_eq promise_defs)
next
  assume "i \<notin> ci_id ` set (getLocal KEYS_COMMUNITY [] w)"
  then have "findIndex (\<lambda>c. ci_id c = i) (getLocal KEYS_COMMUNITY [] w) = -1"
    by (intro findIndex_absent) (force simp: image_iff)
  then show "localStorage (snd (incrementDownload i net w)) = localStorage w"
    by (simp add: incrementDownload_def bestEffort_eq promise_defs localIncrement_def Let_def)
next
  let ?m = "getLocal KEYS_COMMUNITY [] w"
  let ?m' = "getLocal KEYS_COMMUNITY [] (snd (incrementDownload i net w))"
  assume "i \<in> ci_id ` set ?m"
  then have "\<exists>x \<in> set ?m. ci_id x = i" by auto
  from findIndexFrom_present[OF this, of 0] obtain n where n: "n < length ?m"
    "findIndex (\<lambda>c. ci_id c = i) ?m = int n" "ci_id (?m ! n) = i"
    "\<forall>j<n. ci_id (?m ! j) \<noteq> i"
    by (auto simp: findIndex_def)
  have "localStorage (snd (incrementDownload i net w)) =
      localStorage (setLocal KEYS_COMMUNITY
        (?m[n := (?m ! n)\<lparr>ci_downloads := plusNumber (ci_downloads (?m ! n)) 1\<rparr>]) w)"
    using n(2)
    by (simp add: incrementDownload_def bestEffort_eq promise_defs localIncrement_def Let_def
        setLocal_def)
  from mirror_after(5)[OF this]
  have m': "?m' = ?m[n := (?m ! n)\<lparr>ci_downloads := plusNumber (ci_downloads (?m ! n)) 1\<rparr>]" .
  have safe: "\<bar>ci_downloads (?m ! n)\<bar> < 2 ^ 53 \<longrightarrow>
      ?m' = ?m[n := (?m ! n)\<lparr>ci_downloads := ci_downloads (?m ! n) + 1\<rparr>]"
    by (simp add: m' plusNumber_safe)
  from n(1,3,4) m' safe
  show "\<exists>n<length ?m. ci_id (?m ! n) = i \<and> (\<forall>j<n. ci_id (?m ! j) \<noteq> i)
      \<and> ?m' = ?m[n := (?m ! n)\<lparr>ci_downloads := plusNumber (ci_downloads (?m ! n)) 1\<rparr>]
      \<and> (\<bar>ci_downloads (?m ! n)\<bar> < 2 ^ 53 \<longrightarrow>
           ?m' = ?m[n := (?m ! n)\<lparr>ci_downloads := ci_downloads (?m ! n) + 1\<rparr>])"
    by blast
qed

text \<open>
  With \<open>[item2, item1]\<close> in the mirror: the id \<^verbatim>\<open>zz\<close> changes nothing, the id \<^verbatim>\<open>x1\<close>
  raises the counter of \<open>item1\<close> from 5 to 6.
\<close>

theorem increment_download_witness:
  "''zz'' \<notin> ci_id ` set (getLocal KEYS_COMMUNITY [] shared_online0)
   \<and> fst (incrementDownload ''zz'' (down :: unit fetch_outcome) shared_online0) = Inr ()
   \<and> localStorage (snd (incrementDownload ''zz'' (down :: unit fetch_outcome) shared_online0)) =
       localStorage shared_online0
   \<and> ''x1'' \<in> ci_id ` set (getLocal KEYS_COMMUNITY [] shared_online0)
   \<and> \<bar>ci_downloads item1\<bar> < 2 ^ 53
   \<and> getLocal KEYS_COMMUNITY []
        (snd (incrementDownload ''x1'' (down :: unit fetch_outcome) shared_online0)) =
       [item2, item1\<lparr>ci_downloads := 6\<rparr>]"
proof -
  have m: "getLocal KEYS_COMMUNITY [] shared_online0 = [item2, item1]"
    by (simp add: getLocal_def KEYS_defs example_defs)
  have ids: "ci_id item2 = ''x2''" "ci_id item1 = ''x1''" "ci_downloads item1 = 5"
    by (simp_all add: item1_def item2_def)
  have absent: "''zz'' \<notin> ci_id ` set (getLocal KEYS_COMMUNITY [] shared_online0)"
    and present: "''x1'' \<in> ci_id ` set (getLocal KEYS_COMMUNITY [] shared_online0)"
    by (simp_all add: m ids)
  from increment_download[of "''x1''" "down :: unit fetch_outcome" shared_online0] present
  obtain n where n: "n < length [item2, item1]" "ci_id ([item2, item1] ! n) = ''x1''"
    "\<bar>ci_downloads ([item2, item1] ! n)\<bar> < 2 ^ 53 \<longrightarrow>
     getLocal KEYS_COMMUNITY []
        (snd (incrementDownload ''x1'' (down :: unit fetch_outcome) shared_online0)) =
      [item2, item1][n := ([item2, item1] ! n)
         \<lparr>ci_downloads := ci_downloads ([item2, item1] ! n) + 1\<rparr>]"
    unfolding m by blast
  from n(1,2) have "n = 1" using ids by (cases n) auto
  with n(3) have "getLocal KEYS_COMMUNITY []
        (snd (incrementDownload ''x1'' (down :: unit fetch_outcome) shared_online0)) =
       [item2, item1\<lparr>ci_downloads := 6\<rparr>]"
    using ids by simp
  with absent present show ?thesis
    using increment_download[of "''zz''" "down :: unit fetch_outcome" shared_online0]
    by (simp add: ids)
qed

text \<open>
  The claim as stated fails at a counter of \<open>2 ^ 53\<close>: the id \<^verbatim>\<open>big\<close> occurs in the mirror
  \<open>[itemBig]\<close>, and after \<^verbatim>\<open>incrementDownload\<close> the mirror still is \<open>[itemBig]\<close>, its counter
  still \<open>2 ^ 53\<close> and not one more.
\<close>

theorem increment_download_counterexample:
  "''big'' \<in> ci_id ` set (getLocal KEYS_COMMUNITY [] big_online0)
   \<and> ci_downloads itemBig = 9007199254740992
   \<and> getLocal KEYS_COMMUNITY []
        (snd (incrementDownload ''big'' (down :: unit fetch_outcome) big_online0)) = [itemBig]
   \<and> map ci_downloads
        (getLocal KEYS_COMMUNITY []
           (snd (incrementDownload ''big'' (down :: unit fetch_outcome) big_online0))) =
       [9007199254740992]"
  by (simp add: incrementDownload_def localIncrement_def eval_defs example_defs itemBig_def
      item1_def plusNumber_2_53)

subsection \<open>The seed set\<close>

lemma seeds_ids: "map ci_id (seeds now) = [''seed-1'', ''seed-2'', ''seed-3'']"
  by (simp add: seeds_def)

lemma localGetCommunity_empty:
  "getLocal KEYS_COMMUNITY [] w = [] \<Longrightarrow>
   localGetCommunity now w = (Inr (seeds now), setLocal KEYS_COMMUNITY (seeds now) w)"
  by (simp add: localGetCommunity_def)

text \<open>
  Claim C9. If the local community mirror is empty and no remote data is obtainable (the
  oracle reports off line, the request is rejected, which is what a timeout does, the
  status is not \<^verbatim>\<open>ok\<close>, or the body does not parse), \<^verbatim>\<open>getCommunityItems()\<close> returns the
  seed set, which has the three items \<^verbatim>\<open>seed-1\<close>, \<^verbatim>\<open>seed-2\<close>, \<^verbatim>\<open>seed-3\<close> and so is not
  empty, and stores it as the local community mirror.
\<close>

theorem community_seeds:
  assumes "getLocal KEYS_COMMUNITY [] w = []"
    and "\<not> isOnline w \<or> (\<exists>e. net = Rejects e) \<or> (\<exists>b. net = Resolves (Response False b))
         \<or> (\<exists>e. net = Resolves (Response True (Inl e)))"
  shows "fst (getCommunityItems now net w) = Inr (seeds now)
   \<and> seeds now \<noteq> []
   \<and> map ci_id (seeds now) = [''seed-1'', ''seed-2'', ''seed-3'']
   \<and> getLocal KEYS_COMMUNITY [] (snd (getCommunityItems now net w)) = seeds now
   \<and> localStorage (snd (getCommunityItems now net w)) =
       localStorage (setLocal KEYS_COMMUNITY (seeds now) w)"
proof -
  have ne: "seeds now \<noteq> []" by (simp add: seeds_def)
  have run: "fst (getCommunityItems now net w) = Inr (seeds now)
      \<and> localStorage (snd (getCommunityItems now net w)) =
          localStorage (setLocal KEYS_COMMUNITY (seeds now) w)"
  proof (cases "isOnline w")
    case False
    then show ?thesis
      by (simp add: getCommunityItems_def promise_defs localGetCommunity_empty[OF assms(1)])
  next
    case True
    with assms(2) consider e where "net = Rejects e"
      | b where "net = Resolves (Response False b)"
      | e where "net = Resolves (Response True (Inl e))"
      by blast
    then show ?thesis
    proof cases
      case 1
      from assms(1) have "getLocal KEYS_COMMUNITY [] (w\<lparr>requests := r\<rparr>) = []" for r by simp
      with 1 True show ?thesis
        by (simp add: getCommunityItems_def promise_defs localGetCommunity_empty setLocal_def)
    next
      case 2
      from assms(1) have "getLocal KEYS_COMMUNITY [] (w\<lparr>requests := r\<rparr>) = []" for r by simp
      with 2 True show ?thesis
        by (simp add: getCommunityItems_def promise_defs localGetCommunity_empty setLocal_def)
    next
      case 3
      from assms(1) have "getLocal KEYS_COMMUNITY [] (w\<lparr>requests := r\<rparr>) = []" for r by simp
      with 3 True show ?thesis
        by (simp add: getCommunityItems_def promise_defs localGetCommunity_empty setLocal_def)
    qed
  qed
  from run have "getLocal KEYS_COMMUNITY [] (snd (getCommunityItems now net w)) = seeds now"
    by (intro mirror_after(5)) simp
  with ne run show ?thesis by (simp add: seeds_ids)
qed

text \<open>
  In \<open>online0\<close> the community cache is absent; the server answers with a status that is
  not \<^verbatim>\<open>ok\<close>.
\<close>

theorem community_seeds_witness:
  "getLocal KEYS_COMMUNITY [] online0 = []
   \<and> fst (getCommunityItems clock0 (Resolves (Response False (Inr [item1]))) online0) =
       Inr (seeds clock0)
   \<and> map ci_id (seeds clock0) = [''seed-1'', ''seed-2'', ''seed-3'']
   \<and> item_of KEYS_COMMUNITY
        (localStorage
           (snd (getCommunityItems clock0 (Resolves (Response False (Inr [item1]))) online0))) =
       Stored (seeds clock0)"
proof -
  have h: "getLocal KEYS_COMMUNITY [] online0 = []"
    by (simp add: getLocal_def KEYS_defs example_defs)
  have u: "\<not> isOnline online0 \<or> (\<exists>e. Resolves (Response False (Inr [item1])) = Rejects e)
      \<or> (\<exists>b. Resolves (Response False (Inr [item1])) = Resolves (Response False b))
      \<or> (\<exists>e. Resolves (Response False (Inr [item1])) = Resolves (Response True (Inl e)))"
    by simp
  show ?thesis
    using h community_seeds[OF h u, of clock0]
    by (simp add: setLocal_def KEYS_defs)
qed

section \<open>Connectivity and errors\<close>

subsection \<open>Off line, an operation issues no request\<close>

lemma read_offline:
  assumes "\<not> isOnline w"
  shows "requests (snd (getMe netMe w)) = requests w"
    and "requests (snd (getDecks netD w)) = requests w"
    and "requests (snd (getNotes netN w)) = requests w"
    and "requests (snd (getTests netT w)) = requests w"
    and "requests (snd (getStats netS w)) = requests w"
    and "requests (snd (getChatSessions netC w)) = requests w"
  using assms
  by (simp_all add: getMe_def getDecks_def getNotes_def getTests_def getStats_def
      getChatSessions_def promise_defs split: option.split)

lemma write_offline:
  assumes "\<not> isOnline w"
  shows "requests (snd (savePreferences themeMode colorScheme enableSeasonal net w)) = requests w"
    and "requests (snd (createDeck deck net w)) = requests w"
    and "requests (snd (updateDeck deck net w)) = requests w"
    and "requests (snd (deleteDeck i net w)) = requests w"
    and "requests (snd (saveNote nt net w)) = requests w"
    and "requests (snd (deleteNote i net w)) = requests w"
    and "requests (snd (addTest test net w)) = requests w"
    and "requests (snd (deleteTest i net w)) = requests w"
    and "requests (snd (syncStats stats net w)) = requests w"
    and "requests (snd (saveChatSession session net w)) = requests w"
  using assms
  by (simp_all add: savePreferences_def createDeck_def updateDeck_def deleteDeck_def
      saveNote_def deleteNote_def addTest_def deleteTest_def syncStats_def
      saveChatSession_def bestEffort_eq promise_defs setLocal_def Let_def)

lemma localShare_requests: "requests (localShare item w) = requests w"
  by (simp add: localShare_def setLocal_def Let_def)

lemma localIncrement_requests: "requests (localIncrement i w) = requests w"
  by (simp add: localIncrement_def setLocal_def Let_def)

lemma localIncrement_isOnline: "isOnline (localIncrement i w) = isOnline w"
  by (simp add: localIncrement_def setLocal_def Let_def isOnline_def)

lemma localGetCommunity_requests: "requests (snd (localGetCommunity now w)) = requests w"
  by (simp add: localGetCommunity_def setLocal_def Let_def)

lemma community_offline:
  assumes "\<not> isOnline w"
  shows "requests (snd (shareToCommunity entity type authorName uuid now net w)) = requests w"
    and "requests (snd (getCommunityItems clock netCI w)) = requests w"
    and "requests (snd (incrementDownload i net w)) = requests w"
  using assms
  by (simp_all add: shareToCommunity_def getCommunityItems_def incrementDownload_def
      bestEffort_eq promise_defs Let_def localShare_requests localIncrement_requests
      localGetCommunity_requests)

lemma local_only_requests:
  "requests (snd (saveProfile profile w)) = requests w"
  "requests (logout w) = requests w"
  by (simp_all add: saveProfile_def logout_def promise_defs setLocal_def removeItem_def Let_def)

lemma auth_offline:
  assumes "\<not> isOnline w"
  shows "login email password netA w = (Inl (Error ''Offline. Cannot login.''), w)"
    and "register email password name netA w = (Inl (Error ''Offline. Cannot register.''), w)"
  using assms by (simp_all add: login_def register_def promise_defs)

text \<open>
  Claim C4. Whenever the connectivity oracle reports off line, no operation of the
  service issues a request: the log of requests after the operation is the log before
  it. \<^verbatim>\<open>login\<close> and \<^verbatim>\<open>register\<close> then reject with their off-line messages, and leave the
  whole state, the log included, as it was.
\<close>

theorem offline_no_remote_request:
  assumes "\<not> isOnline w"
  shows
  "requests (snd (getMe netMe w)) = requests w
   \<and> requests (snd (saveProfile profile w)) = requests w
   \<and> requests (snd (savePreferences themeMode colorScheme enableSeasonal net w)) = requests w
   \<and> requests (logout w) = requests w
   \<and> requests (snd (getDecks netD w)) = requests w
   \<and> requests (snd (createDeck deck net w)) = requests w
   \<and> requests (snd (updateDeck deck net w)) = requests w
   \<and> requests (snd (deleteDeck i net w)) = requests w
   \<and> requests (snd (getNotes netN w)) = requests w
   \<and> requests (snd (saveNote nt net w)) = requests w
   \<and> requests (snd (deleteNote i net w)) = requests w
   \<and> requests (snd (getTests netT w)) = requests w
   \<and> requests (snd (addTest test net w)) = requests w
   \<and> requests (snd (deleteTest i net w)) = requests w
   \<and> requests (snd (getStats netS w)) = requests w
   \<and> requests (snd (syncStats stats net w)) = requests w
   \<and> requests (snd (getChatSessions netC w)) = requests w
   \<and> requests (snd (saveChatSession session net w)) = requests w
   \<and> requests (snd (shareToCommunity entity type authorName uuid now net w)) = requests w
   \<and> requests (snd (getCommunityItems clock netCI w)) = requests w
   \<and> requests (snd (incrementDownload i net w)) = requests w
   \<and> login email password netA w = (Inl (Error ''Offline. Cannot login.''), w)
   \<and> register email password name netA w = (Inl (Error ''Offline. Cannot register.''), w)"
  by (simp only: read_offline[OF assms] write_offline[OF assms] community_offline[OF assms]
      local_only_requests auth_offline[OF assms] simp_thms)

text \<open>In \<open>offline0\<close> the log of requests is empty, and it stays empty.\<close>

theorem offline_no_remote_request_witness:
  "\<not> isOnline offline0
   \<and> requests offline0 = []
   \<and> requests (snd (getDecks down offline0)) = []
   \<and> requests (snd (createDeck deck3 (down :: unit fetch_outcome) offline0)) = []
   \<and> requests (snd (getCommunityItems clock0 down offline0)) = []
   \<and> requests (snd (incrementDownload ''x1'' (down :: unit fetch_outcome) offline0)) = []
   \<and> login ''ann@example.org'' ''secret'' down offline0 =
       (Inl (Error ''Offline. Cannot login.''), offline0)
   \<and> register ''ann@example.org'' ''secret'' ''Ann'' down offline0 =
       (Inl (Error ''Offline. Cannot register.''), offline0)"
proof -
  have h: "\<not> isOnline offline0" by (simp add: isOnline_def example_defs)
  have r: "requests offline0 = []" by (simp add: example_defs)
  show ?thesis
    using h r offline_no_remote_request[OF h, of down Map.empty "''dark''" "''midnight''" True
        "down :: unit fetch_outcome" down deck3 "''x1''" down note2 down test2 down stats2
        down chat2 "Inl deck3" DeckT "''Ann''" "''u1''" 9 clock0 down
        "''ann@example.org''" "''secret''" down "''Ann''"]
    by simp
qed

subsection \<open>No data operation throws\<close>

lemma read_returns:
  "\<exists>v. fst (getMe netMe w) = Inr v"
  "\<exists>v. fst (getDecks netD w) = Inr v"
  "\<exists>v. fst (getNotes netN w) = Inr v"
  "\<exists>v. fst (getTests netT w) = Inr v"
  "\<exists>v. fst (getStats netS w) = Inr v"
  "\<exists>v. fst (getChatSessions netC w) = Inr v"
  by (simp_all add: getMe_def getDecks_def getNotes_def getTests_def getStats_def
      getChatSessions_def promise_defs
      split: fetch_outcome.split response.split sum.split option.split)

lemma write_returns:
  "fst (savePreferences themeMode colorScheme enableSeasonal net w) = Inr ()"
  "fst (createDeck deck net w) = Inr deck"
  "fst (updateDeck deck net w) = Inr ()"
  "fst (deleteDeck i net w) = Inr ()"
  "fst (saveNote nt net w) = Inr nt"
  "fst (deleteNote i net w) = Inr ()"
  "fst (addTest test net w) = Inr test"
  "fst (deleteTest i net w) = Inr ()"
  "fst (syncStats stats net w) = Inr ()"
  "fst (saveChatSession session net w) = Inr ()"
  by (simp_all add: savePreferences_def createDeck_def updateDeck_def deleteDeck_def
      saveNote_def deleteNote_def addTest_def deleteTest_def syncStats_def
      saveChatSession_def bestEffort_eq promise_defs Let_def)

lemma community_returns:
  "fst (shareToCommunity entity type authorName uuid now net w) = Inr ()"
  "\<exists>v. fst (getCommunityItems clock netCI w) = Inr v"
  "fst (incrementDownload i net w) = Inr ()"
  "\<exists>v. fst (saveProfile profile w) = Inr v"
  by (simp_all add: shareToCommunity_def getCommunityItems_def incrementDownload_def
      saveProfile_def bestEffort_eq promise_defs Let_def localGetCommunity_def
      split: fetch_outcome.split response.split sum.split option.split)

lemma auth_result:
  "fst (login email password netL w) =
     (if \<not> isOnline w then Inl (Error ''Offline. Cannot login.'')
      else (case netL of
              Rejects e \<Rightarrow> Inl e
            | Resolves (Response False b) \<Rightarrow> Inl (Error ''Login failed'')
            | Resolves (Response True (Inl e)) \<Rightarrow> Inl e
            | Resolves (Response True (Inr data)) \<Rightarrow> Inr (auth_user data)))"
  "fst (register email password name netR w) =
     (if \<not> isOnline w then Inl (Error ''Offline. Cannot register.'')
      else (case netR of
              Rejects e \<Rightarrow> Inl e
            | Resolves (Response False b) \<Rightarrow> Inl (Error ''Registration failed'')
            | Resolves (Response True (Inl e)) \<Rightarrow> Inl e
            | Resolves (Response True (Inr data)) \<Rightarrow> Inr (auth_user data)))"
  by (simp_all add: login_def register_def promise_defs
      split: fetch_outcome.split response.split sum.split bool.split)

text \<open>
  Claim C5. In every state and for every outcome of the remote call (a rejected request,
  which covers a network error and a timeout, a status that is not \<^verbatim>\<open>ok\<close>, a body that
  does not parse, or a success), every operation other than \<^verbatim>\<open>login\<close> and \<^verbatim>\<open>register\<close>
  returns and does not throw. \<^verbatim>\<open>login\<close> and \<^verbatim>\<open>register\<close> reject with an \<^verbatim>\<open>Error\<close> that
  carries a message: the off-line message when the oracle reports off line, the error of
  \<^verbatim>\<open>fetch\<close> when the request is rejected, \<^verbatim>\<open>Login failed\<close> or \<^verbatim>\<open>Registration failed\<close> when
  the status is not \<^verbatim>\<open>ok\<close>, the error of \<^verbatim>\<open>res.json()\<close> when the body does not parse; in
  the remaining case they return the user.
\<close>

theorem data_operations_never_throw:
  "(\<exists>v. fst (getMe netMe w) = Inr v)
   \<and> (\<exists>v. fst (saveProfile profile w) = Inr v)
   \<and> fst (savePreferences themeMode colorScheme enableSeasonal net w) = Inr ()
   \<and> (\<exists>v. fst (getDecks netD w) = Inr v)
   \<and> fst (createDeck deck net w) = Inr deck
   \<and> fst (updateDeck deck net w) = Inr ()
   \<and> fst (deleteDeck i net w) = Inr ()
   \<and> (\<exists>v. fst (getNotes netN w) = Inr v)
   \<and> fst (saveNote nt net w) = Inr nt
   \<and> fst (deleteNote i net w) = Inr ()
   \<and> (\<exists>v. fst (getTests netT w) = Inr v)
   \<and> fst (addTest test net w) = Inr test
   \<and> fst (deleteTest i net w) = Inr ()
   \<and> (\<exists>v. fst (getStats netS w) = Inr v)
   \<and> fst (syncStats stats net w) = Inr ()
   \<and> (\<exists>v. fst (getChatSessions netC w) = Inr v)
   \<and> fst (saveChatSession session net w) = Inr ()
   \<and> fst (shareToCommunity entity type authorName uuid now net w) = Inr ()
   \<and> (\<exists>v. fst (getCommunityItems clock netCI w) = Inr v)
   \<and> fst (incrementDownload i net w) = Inr ()
   \<and> fst (login email password netL w) =
       (if \<not> isOnline w then Inl (Error ''Offline. Cannot login.'')
        else (case netL of
                Rejects e \<Rightarrow> Inl e
              | Resolves (Response False b) \<Rightarrow> Inl (Error ''Login failed'')
              | Resolves (Response True (Inl e)) \<Rightarrow> Inl e
              | Resolves (Response True (Inr data)) \<Rightarrow> Inr (auth_user data)))
   \<and> fst (register email password name netR w) =
       (if \<not> isOnline w then Inl (Error ''Offline. Cannot register.'')
        else (case netR of
                Rejects e \<Rightarrow> Inl e
              | Resolves (Response False b) \<Rightarrow> Inl (Error ''Registration failed'')
              | Resolves (Response True (Inl e)) \<Rightarrow> Inl e
              | Resolves (Response True (Inr data)) \<Rightarrow> Inr (auth_user data)))"
  by (intro conjI read_returns write_returns community_returns auth_result)

text \<open>
  On line: a server error does not make \<^verbatim>\<open>createDeck\<close> or \<^verbatim>\<open>incrementDownload\<close> throw;
  \<^verbatim>\<open>login\<close> rejects with the message of the network error, \<^verbatim>\<open>register\<close> with
  \<^verbatim>\<open>Registration failed\<close>.
\<close>

theorem data_operations_never_throw_witness:
  "fst (createDeck deck3 (Resolves (Response False (Inl (Error ''no body''))) :: unit fetch_outcome)
      online0) = Inr deck3
   \<and> fst (incrementDownload ''x1''
        (Resolves (Response False (Inl (Error ''no body''))) :: unit fetch_outcome) online0) = Inr ()
   \<and> fst (login ''ann@example.org'' ''secret'' down online0) = Inl (Error ''Failed to fetch'')
   \<and> fst (register ''ann@example.org'' ''secret'' ''Ann''
        (Resolves (Response False (Inl (Error ''no body'')))) online0) =
       Inl (Error ''Registration failed'')"
proof -
  have on: "isOnline online0"
    by (simp add: isOnline_def example_defs)
  show ?thesis
    using on
      data_operations_never_throw[of down online0 Map.empty "''dark''" "''midnight''" True
        "Resolves (Response False (Inl (Error ''no body''))) :: unit fetch_outcome"
        down deck3 "''x1''" down note2 down test2 down stats2 down chat2 "Inl deck3" DeckT
        "''Ann''" "''u1''" 9 clock0 down "''ann@example.org''" "''secret''" down "''Ann''"
        "Resolves (Response False (Inl (Error ''no body'')))"]
    by (simp add: down_def)
qed

end
